theory Spec2Isabelle
  imports
    Main
    "HOL-Library.Char_ord"
    "HOL-Library.List_Lexorder"
    "HOL-Library.Option_ord"
    "HOL-Library.Product_Lexorder"
    "HOL-Library.Sublist"
    "HOL-Library.AList"
    "HOL-Library.Multiset"
begin

section \<open>Strings\<close>

text \<open>
  A Python \<open>str\<close> is modelled by its UTF-8 encoding, a \<open>string\<close> (list of bytes). A byte
  below \<open>0x80\<close> is an ASCII character; the bytes of every other character are \<open>0x80\<close> or
  above. \<open>lower_char\<close> maps the letters A to Z to a to z and keeps every other byte.
\<close>

definition lower_char :: "char \<Rightarrow> char" where
  "lower_char c =
     (if CHR ''A'' \<le> c \<and> c \<le> CHR ''Z'' then char_of (of_char c + (32::nat)) else c)"


text \<open>
  \<open>lower\<close> is \<open>str.lower()\<close> as far as ASCII letters are concerned, which is all the program
  looks for in lower-cased text. Two characters outside ASCII have a lower case that
  contains an ASCII letter: the Kelvin sign U+212A (bytes \<open>E2 84 AA\<close>) becomes \<open>k\<close>, and the
  capital I with dot above U+0130 (bytes \<open>C4 B0\<close>) becomes \<open>i\<close> followed by the combining dot
  U+0307 (bytes \<open>CC 87\<close>). The lower case of every other non-ASCII character is again
  non-ASCII; such a character is kept as it is.
\<close>

fun lower :: "string \<Rightarrow> string" where
  "lower [] = []"
| "lower (c # cs) =
     (if c = CHR 0xE2 \<and> take 2 cs = [CHR 0x84, CHR 0xAA] then CHR ''k'' # lower (drop 2 cs)
      else if c = CHR 0xC4 \<and> take 1 cs = [CHR 0xB0]
           then CHR ''i'' # CHR 0xCC # CHR 0x87 # lower (drop 1 cs)
      else lower_char c # lower cs)"

text \<open>\<open>str_in t s\<close> is Python's \<open>t in s\<close> on strings: \<open>t\<close> occurs in \<open>s\<close> as a contiguous
  substring.\<close>

primrec str_in :: "string \<Rightarrow> string \<Rightarrow> bool" where
  "str_in t [] = (t = [])"
| "str_in t (c # cs) = (prefix t (c # cs) \<or> str_in t cs)"

text \<open>\<open>startswith s p\<close> is \<open>s.startswith(p)\<close>.\<close>

definition startswith :: "string \<Rightarrow> string \<Rightarrow> bool" where
  "startswith s p = prefix p s"

text \<open>\<open>py_any\<close> is Python's \<open>any(f(x) for x in xs)\<close>.\<close>

definition py_any :: "('a \<Rightarrow> bool) \<Rightarrow> 'a list \<Rightarrow> bool" where
  "py_any f xs = list_ex f xs"

section \<open>Cookie-Consent Matcher: code tables (extract\_cookies.py)\<close>

text \<open>\<open>_map_cmp_type\<close>: a dictionary lookup with default \<open>-1\<close>; the argument may be
  \<open>None\<close> (a NULL column).\<close>

definition map_cmp_type :: "string option \<Rightarrow> int" where
  "map_cmp_type cmp_type =
     (if cmp_type = Some ''cookiebot'' then 0
      else if cmp_type = Some ''onetrust'' then 1
      else if cmp_type = Some ''termly'' then 2
      else - 1)"

text \<open>\<open>_map_purpose_category\<close>: \<open>if not category\<close> holds for \<open>None\<close> and for the empty
  string; then the \<open>if\<close>/\<open>elif\<close> chain over the lower-cased text.\<close>

definition map_purpose_category :: "string option \<Rightarrow> int" where
  "map_purpose_category category =
     (case category of
        None \<Rightarrow> - 1
      | Some c \<Rightarrow>
          if c = [] then - 1
          else
            let category_lower = lower c in
            if py_any (\<lambda>term. str_in term category_lower)
                 [''necessary'', ''essential'', ''required'', ''strictly''] then 0
            else if py_any (\<lambda>term. str_in term category_lower)
                 [''functional'', ''preference'', ''personalization''] then 1
            else if py_any (\<lambda>term. str_in term category_lower)
                 [''analytics'', ''performance'', ''statistics'', ''measurement''] then 2
            else if py_any (\<lambda>term. str_in term category_lower)
                 [''advertising'', ''marketing'', ''targeting'', ''ads''] then 3
            else if py_any (\<lambda>term. str_in term category_lower)
                 [''social'', ''media''] then 4
            else - 1)"

text \<open>
  The reading of the specification, to compare with the code: an ordered table of
  categories with their keyword sets, and the first category one of whose keywords is
  contained in the lower-cased text wins; \<open>-1\<close> when no category matches.
\<close>

definition purpose_table :: "(int \<times> string list) list" where
  "purpose_table =
     [(0, [''necessary'', ''essential'', ''required'', ''strictly'']),
      (1, [''functional'', ''preference'', ''personalization'']),
      (2, [''analytics'', ''performance'', ''statistics'', ''measurement'']),
      (3, [''advertising'', ''marketing'', ''targeting'', ''ads'']),
      (4, [''social'', ''media''])]"

fun first_category :: "(int \<times> string list) list \<Rightarrow> string \<Rightarrow> int" where
  "first_category [] s = - 1"
| "first_category ((code, kws) # rest) s =
     (if list_ex (\<lambda>kw. str_in kw s) kws then code else first_category rest s)"

section \<open>Presence Probe (presence\_crawler.py)\<close>

text \<open>
  The fingerprint patterns are regular expressions compiled with \<open>re.IGNORECASE\<close> whose
  only operators are escaped dots and one alternation \<open>(com|eu)\<close>; each is given by the
  ASCII literals it stands for. \<open>re_search lit s\<close> is \<open>pattern.search(s) is not None\<close> for
  such a literal. Under \<open>re.IGNORECASE\<close> a pattern character matches the text characters
  with the same lower case, and beyond ASCII \<open>s\<close> also matches the long s U+017F (bytes
  \<open>C5 BF\<close>), \<open>i\<close> the dotless i U+0131 (\<open>C4 B1\<close>) and the capital I with dot above U+0130
  (\<open>C4 B0\<close>), and \<open>k\<close> the Kelvin sign U+212A (\<open>E2 84 AA\<close>): \<open>extra_variants\<close>.
  \<open>match_here pat t\<close> says that the literal matches at the start of \<open>t\<close>.
\<close>

definition extra_variants :: "char \<Rightarrow> string list" where
  "extra_variants p =
     (if lower_char p = CHR ''s'' then [[CHR 0xC5, CHR 0xBF]]
      else if lower_char p = CHR ''i'' then [[CHR 0xC4, CHR 0xB1], [CHR 0xC4, CHR 0xB0]]
      else if lower_char p = CHR ''k'' then [[CHR 0xE2, CHR 0x84, CHR 0xAA]]
      else [])"

fun match_here :: "string \<Rightarrow> string \<Rightarrow> bool" where
  "match_here [] t = True"
| "match_here (p # ps) t =
     ((case t of [] \<Rightarrow> False | x # t' \<Rightarrow> lower_char x = lower_char p \<and> match_here ps t')
      \<or> list_ex (\<lambda>v. prefix v t \<and> match_here ps (drop (length v) t)) (extra_variants p))"

primrec re_search :: "string \<Rightarrow> string \<Rightarrow> bool" where
  "re_search pat [] = match_here pat []"
| "re_search pat (c # cs) = (match_here pat (c # cs) \<or> re_search pat cs)"

definition cb_base_pat :: "string list" where
  "cb_base_pat = [''https://consent.cookiebot.com/'', ''https://consent.cookiebot.eu/'']"

definition cb_script_name :: string where
  "cb_script_name = ''cb-main.js''"

definition onetrust_patterns :: "string list" where
  "onetrust_patterns =
     [''https://cdn-apac.onetrust.com'',
      ''https://cdn-ukwest.onetrust.com'',
      ''https://cmp-cdn.cookielaw.org'',
      ''https://cdn.cookielaw.org'',
      ''https://optanon.blob.core.windows.net'',
      ''https://cookie-cdn.cookiepro.com'',
      ''https://cookiepro.blob.core.windows.net'']"

definition termly_url_pattern :: string where
  "termly_url_pattern = ''https://app.termly.io/''"

definition check_cmp :: bool where
  "check_cmp = True"

datatype QuickCrawlResult =
  CRAWL_TIMEOUT | OK | CONNECT_FAIL | HTTP_ERROR | BOT | NOCMP | COOKIEBOT | ONETRUST | TERMLY

text \<open>A \<open>requests.Response\<close>: the fields the probe reads. \<open>resp_ok\<close> is \<open>Response.ok\<close>, which
  is false exactly for a status from 400 to 599.\<close>

record response =
  status_code :: int
  resp_url :: string
  resp_text :: string

definition resp_ok :: "response \<Rightarrow> bool" where
  "resp_ok r = (\<not> (400 \<le> status_code r \<and> status_code r < 600))"

text \<open>
  What \<open>requests.get\<close> does at a URL, by the \<open>except\<close> clause that receives it, in the
  order of the clauses: \<open>SSLSchemaError\<close> is an instance of TooManyRedirects, SSLError,
  URLRequired or MissingSchema; \<open>ConnectionTimeoutError\<close> is any other instance of
  ConnectionError or Timeout; \<open>UnexpectedError\<close> is any other exception.
\<close>

datatype requests_exception = SSLSchemaError | ConnectionTimeoutError | UnexpectedError

datatype get_outcome = Returned response | Raised requests_exception

definition check_cookiebot_presence :: "response \<Rightarrow> bool" where
  "check_cookiebot_presence resp =
     (let psource = resp_text resp in
      list_ex (\<lambda>lit. re_search lit psource) cb_base_pat \<or> re_search cb_script_name psource)"

definition check_onetrust_presence :: "response \<Rightarrow> bool" where
  "check_onetrust_presence resp =
     (let psource = resp_text resp in
      list_ex (\<lambda>pattern. re_search pattern psource) onetrust_patterns)"

definition check_termly_presence :: "response \<Rightarrow> bool" where
  "check_termly_presence resp =
     (let psource = resp_text resp in re_search termly_url_pattern psource)"

text \<open>\<open>re.sub(r"^www\.", "", input_domain)\<close>: one leading \<open>www.\<close> is removed.\<close>

definition strip_www :: "string \<Rightarrow> string" where
  "strip_www s = (if prefix ''www.'' s then drop 4 s else s)"

text \<open>
  The \<open>for prefix in prefix_list\<close> loop. It ends by a \<open>return\<close> inside the loop, by
  \<open>break\<close> with the response (\<open>final_url = r.url\<close>), or by exhausting the list with
  \<open>final_url\<close> and \<open>r\<close> still \<open>None\<close>. The second component is the list of the URLs
  requested, in order. \<open>get\<close> is \<open>requests.get\<close> with the fixed headers and timeouts; it
  returns a response or raises, so the branch \<open>r is None\<close> of the loop is never taken.
\<close>

datatype loop_exit =
  Return "string \<times> QuickCrawlResult" | Break response | Exhausted

fun try_prefixes ::
  "(string \<Rightarrow> get_outcome) \<Rightarrow> string \<Rightarrow> string \<Rightarrow> string list \<Rightarrow> loop_exit \<times> string list"
where
  "try_prefixes get input_domain url_suffix [] = (Exhausted, [])"
| "try_prefixes get input_domain url_suffix (pre # prefix_list) =
     (let completed_url = pre @ url_suffix in
      case get completed_url of
        Raised SSLSchemaError \<Rightarrow> (Return (input_domain, CONNECT_FAIL), [completed_url])
      | Raised ConnectionTimeoutError \<Rightarrow>
          (let (ex, attempts) = try_prefixes get input_domain url_suffix prefix_list
           in (ex, completed_url # attempts))
      | Raised UnexpectedError \<Rightarrow> (Return (input_domain, CONNECT_FAIL), [completed_url])
      | Returned r \<Rightarrow>
          if \<not> resp_ok r then
            (if status_code r = 403 \<or> status_code r = 406
             then (Return (completed_url, BOT), [completed_url])
             else (Return (completed_url, HTTP_ERROR), [completed_url]))
          else (Break r, [completed_url]))"

text \<open>The chain \<open>if check_cookiebot_presence ... elif ... else\<close> that classifies the
  content of the response the loop ended with.\<close>

definition cmp_classification :: "response \<Rightarrow> QuickCrawlResult" where
  "cmp_classification r =
     (if check_cookiebot_presence r then COOKIEBOT
      else if check_onetrust_presence r then ONETRUST
      else if check_termly_presence r then TERMLY
      else NOCMP)"

text \<open>
  \<open>run_reachability_check\<close>, with the list of requested URLs beside its result.
  \<open>urlparse_scheme\<close> is \<open>urlparse(input_domain).scheme\<close> of the standard library, taken as
  a parameter: \<open>None\<close> when \<open>urlparse\<close> raises \<open>ValueError\<close> (as it does for \<open>http://[x\<close>),
  otherwise the scheme. The call stands before the \<open>try\<close> statement, so its exception
  leaves \<open>run_reachability_check\<close> before any URL is requested.
\<close>

datatype py_error = ValueError

definition prefix_choice ::
  "(string \<Rightarrow> string option) \<Rightarrow> string \<Rightarrow> (string \<times> string list) option" where
  "prefix_choice urlparse_scheme input_domain =
     (case urlparse_scheme input_domain of
        None \<Rightarrow> None
      | Some scheme \<Rightarrow>
          Some (if scheme = ''http'' \<or> scheme = ''https''
                then (input_domain, [[]])
                else (strip_www input_domain, [''https://www.'', ''https://'', ''http://''])))"

definition run_reachability_check_attempts ::
  "(string \<Rightarrow> string option) \<Rightarrow> (string \<Rightarrow> get_outcome) \<Rightarrow> string
     \<Rightarrow> (py_error + string \<times> QuickCrawlResult) \<times> string list"
where
  "run_reachability_check_attempts urlparse_scheme get input_domain =
     (case prefix_choice urlparse_scheme input_domain of
        None \<Rightarrow> (Inl ValueError, [])
      | Some (url_suffix, prefix_list) \<Rightarrow>
          (let (ex, attempts) = try_prefixes get input_domain url_suffix prefix_list
           in
           (Inr (case ex of
                   Return res \<Rightarrow> res
                 | Break r \<Rightarrow>
                     (let final_url = resp_url r in
                      if check_cmp then (final_url, cmp_classification r) else (final_url, OK))
                 | Exhausted \<Rightarrow> (input_domain, CONNECT_FAIL)),
            attempts)))"

definition run_reachability_check ::
  "(string \<Rightarrow> string option) \<Rightarrow> (string \<Rightarrow> get_outcome) \<Rightarrow> string
     \<Rightarrow> py_error + string \<times> QuickCrawlResult"
where
  "run_reachability_check urlparse_scheme get input_domain =
     fst (run_reachability_check_attempts urlparse_scheme get input_domain)"

definition attempted_urls ::
  "(string \<Rightarrow> string option) \<Rightarrow> (string \<Rightarrow> get_outcome) \<Rightarrow> string \<Rightarrow> string list"
where
  "attempted_urls urlparse_scheme get input_domain =
     snd (run_reachability_check_attempts urlparse_scheme get input_domain)"

section \<open>Consent Extractor: CMP detection (consent\_crawler.py)\<close>

text \<open>
  \<open>detect_cmp_type\<close>. Its argument is what reading \<open>driver.page_source\<close> gives: the page
  text, or \<open>None\<close> when the read raises, which the function turns into \<open>''error''\<close>.
\<close>

definition detect_cmp_type :: "string option \<Rightarrow> string" where
  "detect_cmp_type source =
     (case source of
        None \<Rightarrow> ''error''
      | Some src \<Rightarrow>
          let page_source = lower src in
          if str_in ''cookiebot'' page_source \<or> str_in ''consent.cookiebot'' page_source
          then ''cookiebot''
          else if py_any (\<lambda>pattern. str_in pattern page_source)
                    [''onetrust'', ''cookielaw'', ''optanon'', ''cookiepro'']
          then ''onetrust''
          else if str_in ''termly'' page_source \<or> str_in ''app.termly.io'' page_source
          then ''termly''
          else ''unknown'')"

section \<open>Persistence Store (schema of consent\_crawler.py, init\_database)\<close>

text \<open>
  The three tables, one record per row. A nullable column is an \<open>option\<close>; \<open>NOT NULL\<close>
  text columns are plain strings; BOOLEAN columns hold a truth value. The ids come
  from \<open>AUTOINCREMENT\<close>: \<open>seq_crawl_results\<close> and \<open>seq_consent_data\<close> are the largest ids
  handed out so far (SQLite's \<open>sqlite_sequence\<close>), and an insert takes the next one.
  Field names are global in a theory, so the columns of a table carry the table's
  initials (\<open>cr_\<close>, \<open>ck_\<close>, \<open>cd_\<close>); in the same way the fields of the other records
  below carry a prefix (\<open>row_\<close>, \<open>ent_\<close>, \<open>var_\<close>, \<open>cs_\<close>, \<open>bc_\<close>) where the
  source's key is used by more than one of them.
\<close>

record crawl_results_row =
  cr_id :: nat
  cr_domain :: string
  cr_timestamp :: string
  cr_success :: bool
  cr_cmp_type :: "string option"
  cr_cookies_collected :: nat
  cr_error_message :: "string option"

record cookies_row =
  ck_id :: nat
  ck_crawl_id :: "nat option"
  ck_name :: string
  ck_domain :: string
  ck_value :: "string option"
  ck_path :: "string option"
  ck_expiry :: "string option"
  ck_secure :: "bool option"
  ck_http_only :: "bool option"
  ck_same_site :: "string option"

record consent_data_row =
  cd_id :: nat
  cd_crawl_id :: "nat option"
  cd_cookie_name :: string
  cd_cookie_domain :: string
  cd_purpose_category :: "string option"
  cd_purpose_description :: "string option"
  cd_cmp_type :: "string option"

record database =
  tbl_crawl_results :: "crawl_results_row list"
  tbl_cookies :: "cookies_row list"
  tbl_consent_data :: "consent_data_row list"
  seq_crawl_results :: nat
  seq_consent_data :: nat

section \<open>Cookie-Consent Matcher: extraction (extract\_cookies.py)\<close>

text \<open>One row of the result of the SQL query, with the column aliases of the \<open>SELECT\<close>;
  the columns of the two left-joined tables are \<open>None\<close> when nothing joined.\<close>

record joined_row =
  row_crawl_id :: nat
  row_domain :: string
  row_cmp_type :: "string option"
  row_success :: bool
  cookie_name :: "string option"
  cookie_domain :: "string option"
  cookie_value :: "string option"
  cookie_path :: "string option"
  cookie_expiry :: "string option"
  cookie_secure :: "bool option"
  cookie_http_only :: "bool option"
  cookie_same_site :: "string option"
  purpose_category :: "string option"
  purpose_description :: "string option"

text \<open>
  The query: \<open>crawl_results LEFT JOIN cookies ON cr.id = c.crawl_id LEFT JOIN consent_data
  ON (cr.id = cd.crawl_id AND c.name = cd.cookie_name AND c.domain = cd.cookie_domain)
  WHERE cr.success = 1 ORDER BY cr.domain, c.name\<close>. A left join keeps a row without a
  partner, with NULL columns; a comparison with NULL never holds. \<open>where_rows\<close> is the
  joined and filtered rows, in the order of a nested loop over the tables; \<open>order_key\<close> is
  the sort key of \<open>ORDER BY\<close>, compared by the binary order of the text, NULL first.

  SQL fixes the order of the result only up to the sort key: rows with equal keys come in
  whatever order the engine's plan produces. So the result of the query is described by
  the relation \<open>is_query_result\<close>: any arrangement of the rows of \<open>where_rows\<close> that is
  sorted by \<open>order_key\<close>. \<open>run_query\<close> is one such arrangement, the one that keeps rows with
  equal keys in the order of the join.
\<close>

definition join_consent :: "database \<Rightarrow> crawl_results_row \<Rightarrow> cookies_row \<Rightarrow> joined_row list" where
  "join_consent db cr c =
     (let base = \<lparr>row_crawl_id = cr_id cr, row_domain = cr_domain cr,
                  row_cmp_type = cr_cmp_type cr, row_success = cr_success cr,
                  cookie_name = Some (ck_name c), cookie_domain = Some (ck_domain c),
                  cookie_value = ck_value c, cookie_path = ck_path c,
                  cookie_expiry = ck_expiry c, cookie_secure = ck_secure c,
                  cookie_http_only = ck_http_only c, cookie_same_site = ck_same_site c,
                  purpose_category = None, purpose_description = None\<rparr>;
          cds = filter (\<lambda>cd. cd_crawl_id cd = Some (cr_id cr)
                            \<and> cd_cookie_name cd = ck_name c
                            \<and> cd_cookie_domain cd = ck_domain c) (tbl_consent_data db)
      in if cds = [] then [base]
         else map (\<lambda>cd. base\<lparr>purpose_category := cd_purpose_category cd,
                             purpose_description := cd_purpose_description cd\<rparr>) cds)"

definition join_cookies :: "database \<Rightarrow> crawl_results_row \<Rightarrow> joined_row list" where
  "join_cookies db cr =
     (let cs = filter (\<lambda>c. ck_crawl_id c = Some (cr_id cr)) (tbl_cookies db)
      in if cs = [] then
           [\<lparr>row_crawl_id = cr_id cr, row_domain = cr_domain cr,
             row_cmp_type = cr_cmp_type cr, row_success = cr_success cr,
             cookie_name = None, cookie_domain = None, cookie_value = None,
             cookie_path = None, cookie_expiry = None, cookie_secure = None,
             cookie_http_only = None, cookie_same_site = None,
             purpose_category = None, purpose_description = None\<rparr>]
         else concat (map (join_consent db cr) cs))"

definition where_rows :: "database \<Rightarrow> joined_row list" where
  "where_rows db =
     filter row_success (concat (map (join_cookies db) (tbl_crawl_results db)))"

definition order_key :: "joined_row \<Rightarrow> string \<times> string option" where
  "order_key row = (row_domain row, cookie_name row)"

definition is_query_result :: "database \<Rightarrow> joined_row list \<Rightarrow> bool" where
  "is_query_result db rows =
     (mset rows = mset (where_rows db) \<and> sorted (map order_key rows))"

definition run_query :: "database \<Rightarrow> joined_row list" where
  "run_query db = sort_key order_key (where_rows db)"

text \<open>Python truth of a nullable text (\<open>None\<close> and the empty string are false), of a
  nullable truth value, \<open>x or default\<close>, and the text an f-string gives for a nullable
  text.\<close>

definition truthy :: "string option \<Rightarrow> bool" where
  "truthy x = (case x of None \<Rightarrow> False | Some s \<Rightarrow> s \<noteq> [])"

definition py_bool :: "bool option \<Rightarrow> bool" where
  "py_bool x = (case x of None \<Rightarrow> False | Some b \<Rightarrow> b)"

definition or_default :: "string option \<Rightarrow> string \<Rightarrow> string" where
  "or_default x d = (case x of None \<Rightarrow> d | Some s \<Rightarrow> if s = [] then d else s)"

definition py_format :: "string option \<Rightarrow> string" where
  "py_format x = (case x of None \<Rightarrow> ''None'' | Some s \<Rightarrow> s)"

text \<open>An export entry and the elements of its \<open>variable_data\<close> list.\<close>

record variable_data_item =
  var_value :: string
  var_expiry :: string
  var_secure :: bool
  var_http_only :: bool
  var_same_site :: string

record cookie_entry =
  ent_name :: "string option"
  ent_domain :: "string option"
  ent_path :: string
  cmp_origin :: int
  label :: int
  ent_purpose_description :: string
  ent_crawl_domain :: string
  variable_data :: "variable_data_item list"

text \<open>\<open>cookie_id\<close> is \<open>f"{row['cookie_domain']}_{row['cookie_name']}"\<close>; \<open>row_variable_data\<close> is
  the single element of the \<open>variable_data\<close> list of the entry built from a row, and
  \<open>make_entry\<close> is that entry.\<close>

definition cookie_id :: "joined_row \<Rightarrow> string" where
  "cookie_id row = py_format (cookie_domain row) @ ''_'' @ py_format (cookie_name row)"

definition row_variable_data :: "joined_row \<Rightarrow> variable_data_item" where
  "row_variable_data row =
     \<lparr>var_value = or_default (cookie_value row) [],
      var_expiry = or_default (cookie_expiry row) [],
      var_secure = py_bool (cookie_secure row),
      var_http_only = py_bool (cookie_http_only row),
      var_same_site = or_default (cookie_same_site row) ''no_restriction''\<rparr>"

definition make_entry :: "joined_row \<Rightarrow> cookie_entry" where
  "make_entry row =
     \<lparr>ent_name = cookie_name row,
      ent_domain = cookie_domain row,
      ent_path = or_default (cookie_path row) ''/'',
      cmp_origin = map_cmp_type (row_cmp_type row),
      label = map_purpose_category (purpose_category row),
      ent_purpose_description = or_default (purpose_description row) [],
      ent_crawl_domain = row_domain row,
      variable_data = [row_variable_data row]\<rparr>"

text \<open>The state of the \<open>for row in rows\<close> loop. \<open>extracted_data\<close> is a Python dictionary: an
  association list in insertion order with distinct keys.\<close>

record loop_state =
  extracted_data :: "(string \<times> cookie_entry) list"
  matched_cookies :: nat
  unmatched_cookies :: nat

definition append_variable_data :: "variable_data_item \<Rightarrow> cookie_entry \<Rightarrow> cookie_entry" where
  "append_variable_data v e = e\<lparr>variable_data := variable_data e @ [v]\<rparr>"

definition process_row :: "bool \<Rightarrow> joined_row \<Rightarrow> loop_state \<Rightarrow> loop_state" where
  "process_row include_unmatched row st =
     (if \<not> truthy (cookie_name row) then st
      else
        let has_consent_data = truthy (purpose_category row) in
        if \<not> has_consent_data \<and> \<not> include_unmatched
        then st\<lparr>unmatched_cookies := unmatched_cookies st + 1\<rparr>
        else
          let st' = (if has_consent_data
                     then st\<lparr>matched_cookies := matched_cookies st + 1\<rparr>
                     else st\<lparr>unmatched_cookies := unmatched_cookies st + 1\<rparr>);
              cookie_entry = make_entry row
          in
          if map_of (extracted_data st') (cookie_id row) \<noteq> None
          then st'\<lparr>extracted_data :=
                    AList.map_entry (cookie_id row)
                      (append_variable_data (hd (variable_data cookie_entry)))
                      (extracted_data st')\<rparr>
          else st'\<lparr>extracted_data := extracted_data st' @ [(cookie_id row, cookie_entry)]\<rparr>)"

record statistics =
  total_unique_cookies :: nat
  stat_matched_cookies :: nat
  stat_unmatched_cookies :: nat
  extraction_date :: string

record extraction =
  out_cookies :: "(string \<times> cookie_entry) list"
  out_statistics :: statistics

text \<open>
  The loop and the returned dictionary, for the rows the query gave; \<open>now\<close> is the text of
  \<open>datetime.now().isoformat()\<close> at the time of the run. \<open>extract_cookies_with_consent\<close> runs
  the query on the store first.
\<close>

definition extract_rows :: "joined_row list \<Rightarrow> bool \<Rightarrow> string \<Rightarrow> extraction" where
  "extract_rows rows include_unmatched now =
     (let st = fold (process_row include_unmatched) rows
                 \<lparr>extracted_data = [], matched_cookies = 0, unmatched_cookies = 0\<rparr>
      in \<lparr>out_cookies = extracted_data st,
          out_statistics =
            \<lparr>total_unique_cookies = length (extracted_data st),
             stat_matched_cookies = matched_cookies st,
             stat_unmatched_cookies = unmatched_cookies st,
             extraction_date = now\<rparr>\<rparr>)"

definition extract_cookies_with_consent :: "database \<Rightarrow> bool \<Rightarrow> string \<Rightarrow> extraction" where
  "extract_cookies_with_consent db include_unmatched now =
     extract_rows (run_query db) include_unmatched now"

text \<open>A row is retained by the loop when its cookie name is non-empty and it has consent
  data or unmatched cookies are included.\<close>

definition retained :: "bool \<Rightarrow> joined_row \<Rightarrow> bool" where
  "retained include_unmatched row =
     (truthy (cookie_name row) \<and> (truthy (purpose_category row) \<or> include_unmatched))"

definition rows_of_key :: "bool \<Rightarrow> string \<Rightarrow> joined_row list \<Rightarrow> joined_row list" where
  "rows_of_key include_unmatched k rows =
     filter (\<lambda>row. retained include_unmatched row \<and> cookie_id row = k) rows"

section \<open>Consent Extractor: one crawl (consent\_crawler.py)\<close>

text \<open>
  Exceptions of the browser session, as the handlers of \<open>crawl_domain\<close> tell them apart:
  selenium's \<open>TimeoutException\<close>, and any other \<open>Exception\<close> with its text \<open>str(e)\<close>.
\<close>

datatype exn = TimeoutException | OtherException string

text \<open>A cookie dictionary as \<open>driver.get_cookies()\<close> returns it, and a consent dictionary
  as the two scrapers build it.\<close>

record browser_cookie =
  bc_name :: string
  bc_value :: string
  bc_path :: string
  bc_domain :: string
  bc_secure :: bool
  bc_httpOnly :: bool
  bc_expiry :: "int option"
  bc_sameSite :: "string option"

record consent =
  cs_name :: string
  cs_domain :: string
  cs_category :: string
  cs_purpose :: string
  cs_cmp :: string

record CrawlResult =
  domain :: string
  success :: bool
  cmp_type :: string
  cookies_collected :: nat
  consent_data :: "consent list"
  error_message :: "string option"

text \<open>
  What the page offers to the scrapers. A Cookiebot declaration element has three
  attributes (absent attributes are \<open>None\<close>) and a text; reading it may raise. A OneTrust
  cookie element has a name, a category and a description child, each of which may be
  missing (\<open>find_element\<close> raises), and a \<open>data-domain\<close> attribute.
\<close>

record cookiebot_element =
  cb_attr_name :: "string option"
  cb_attr_domain :: "string option"
  cb_attr_category :: "string option"
  cb_text :: string

record onetrust_element =
  ot_name_text :: "exn + string"
  ot_category_text :: "exn + string"
  ot_data_domain :: "string option"
  ot_description_text :: "exn + string"

text \<open>What looking up one accept selector gives: the lookup (or a later call on the
  element) raises, or there is a control that is displayed or not, enabled or not, and
  whose click succeeds or raises.\<close>

datatype accept_control = Lookup_raises | Control bool bool bool

text \<open>
  The behaviour of the browser during one crawl: the outcome of every call the crawl
  makes on the driver, in the order of the calls. \<open>None\<close> for an outcome means that the call
  returns normally. \<open>cookies_after\<close> depends on whether an accept control was clicked.
\<close>

record browser =
  create_driver_outcome :: "exn option"
  navigate_outcome :: "exn option"
  wait_outcome :: "exn option"
  page_source :: "exn + string"
  cookiebot_elements :: "exn + (exn + cookiebot_element) list"
  onetrust_elements :: "exn + onetrust_element list"
  cookies_before :: "exn + browser_cookie list"
  accept_controls :: "string \<Rightarrow> accept_control"
  cookies_after :: "bool \<Rightarrow> exn + browser_cookie list"
  quit_outcome :: "exn option"

text \<open>\<open>str.strip()\<close> on ASCII text.\<close>

definition is_space :: "char \<Rightarrow> bool" where
  "is_space c = (c \<in> set [CHR 0x20, CHR 0x09, CHR 0x0A, CHR 0x0B, CHR 0x0C, CHR 0x0D,
                            CHR 0x1C, CHR 0x1D, CHR 0x1E, CHR 0x1F])"

definition strip :: "string \<Rightarrow> string" where
  "strip s = rev (dropWhile is_space (rev (dropWhile is_space s)))"

definition collect_cookies :: "exn + browser_cookie list \<Rightarrow> browser_cookie list" where
  "collect_cookies got = (case got of Inl e \<Rightarrow> [] | Inr cookies \<Rightarrow> cookies)"

definition cookiebot_consent :: "exn + cookiebot_element \<Rightarrow> consent list" where
  "cookiebot_consent el =
     (case el of
        Inl e \<Rightarrow> []
      | Inr element \<Rightarrow>
          [\<lparr>cs_name = or_default (cb_attr_name element) ''unknown'',
            cs_domain = or_default (cb_attr_domain element) ''unknown'',
            cs_category = or_default (cb_attr_category element) ''unknown'',
            cs_purpose = (if cb_text element \<noteq> [] then strip (cb_text element)
                          else ''No description''),
            cs_cmp = ''cookiebot''\<rparr>])"

definition extract_consent_data_cookiebot :: "browser \<Rightarrow> consent list" where
  "extract_consent_data_cookiebot b =
     (case cookiebot_elements b of
        Inl e \<Rightarrow> []
      | Inr declaration_elements \<Rightarrow> concat (map cookiebot_consent declaration_elements))"

definition onetrust_consent :: "onetrust_element \<Rightarrow> consent list" where
  "onetrust_consent element =
     (case (ot_name_text element, ot_category_text element, ot_description_text element) of
        (Inr name, Inr category, Inr purpose) \<Rightarrow>
          [\<lparr>cs_name = strip name,
            cs_domain = or_default (ot_data_domain element) ''unknown'',
            cs_category = strip category,
            cs_purpose = strip purpose,
            cs_cmp = ''onetrust''\<rparr>]
      | _ \<Rightarrow> [])"

definition extract_consent_data_onetrust :: "browser \<Rightarrow> consent list" where
  "extract_consent_data_onetrust b =
     (case onetrust_elements b of
        Inl e \<Rightarrow> []
      | Inr cookie_elements \<Rightarrow> concat (map onetrust_consent cookie_elements))"

definition accept_selectors :: "string list" where
  "accept_selectors =
     [''[id*='accept']'', ''[class*='accept']'',
      ''[id*='agree']'', ''[class*='agree']'',
      ''[aria-label*='Accept']'', ''[aria-label*='Agree']'']"

text \<open>The loop over the accept selectors: the first control that is displayed and enabled
  and whose click succeeds ends the loop; everything that raises is skipped. The result
  tells whether a click happened.\<close>

fun click_accept :: "(string \<Rightarrow> accept_control) \<Rightarrow> string list \<Rightarrow> bool" where
  "click_accept controls [] = False"
| "click_accept controls (selector # rest) =
     (case controls selector of
        Lookup_raises \<Rightarrow> click_accept controls rest
      | Control displayed enabled click_ok \<Rightarrow>
          if displayed \<and> enabled then (if click_ok then True else click_accept controls rest)
          else click_accept controls rest)"

text \<open>
  The \<open>try\<close> block of \<open>crawl_domain\<close>: it returns a result or raises. Beside the outcome
  it gives the value of the local variable \<open>domain\<close> and the state of the driver when the
  block is left. \<open>domain0\<close> is the argument and \<open>domain1\<close> the variable after the scheme has
  been put in front. Only the creation of the driver, the navigation and the readiness
  wait can raise out of the block; the later steps catch what they raise. Logging and
  the sleeps are not part of the model.
\<close>

datatype driver_state = No_driver | Driver_open | Driver_quit

definition crawl_try ::
  "browser \<Rightarrow> string \<Rightarrow> (exn + CrawlResult) \<times> string \<times> driver_state" where
  "crawl_try b domain0 =
     (case create_driver_outcome b of
        Some e \<Rightarrow> (Inl e, domain0, No_driver)
      | None \<Rightarrow>
          let domain1 = (if \<not> (startswith domain0 ''http://'' \<or> startswith domain0 ''https://'')
                         then ''https://'' @ domain0 else domain0)
          in
          case navigate_outcome b of
            Some e \<Rightarrow> (Inl e, domain1, Driver_open)
          | None \<Rightarrow>
              (case wait_outcome b of
                 Some e \<Rightarrow> (Inl e, domain1, Driver_open)
               | None \<Rightarrow>
                   let cmp = detect_cmp_type
                               (case page_source b of Inl e \<Rightarrow> None | Inr src \<Rightarrow> Some src);
                       consents = (if cmp = ''cookiebot'' then extract_consent_data_cookiebot b
                                   else if cmp = ''onetrust'' then extract_consent_data_onetrust b
                                   else []);
                       cookies = collect_cookies (cookies_before b);
                       clicked = click_accept (accept_controls b) accept_selectors;
                       final_cookies = collect_cookies (cookies_after b clicked)
                   in (Inr \<lparr>domain = domain1, success = True, cmp_type = cmp,
                            cookies_collected = length final_cookies,
                            consent_data = consents, error_message = None\<rparr>,
                       domain1, Driver_open)))"

text \<open>\<open>crawl_domain\<close>: the \<open>try\<close> block, the two \<open>except\<close> clauses and the \<open>finally\<close> clause,
  which calls \<open>driver.quit()\<close> when a driver exists and swallows what that raises.\<close>

definition failed_result :: "string \<Rightarrow> string \<Rightarrow> CrawlResult" where
  "failed_result d msg =
     \<lparr>domain = d, success = False, cmp_type = ''unknown'', cookies_collected = 0,
      consent_data = [], error_message = Some msg\<rparr>"

definition crawl_domain :: "browser \<Rightarrow> string \<Rightarrow> CrawlResult \<times> driver_state" where
  "crawl_domain b domain0 =
     (let (outcome, d, driver) = crawl_try b domain0;
          result = (case outcome of
                      Inr r \<Rightarrow> r
                    | Inl TimeoutException \<Rightarrow> failed_result d ''Page load timeout''
                    | Inl (OtherException msg) \<Rightarrow> failed_result d msg)
      in (result, if driver = Driver_open then Driver_quit else driver))"

section \<open>Consent Extractor: persistence (consent\_crawler.py)\<close>

text \<open>
  \<open>save_crawl_result\<close>: one \<open>INSERT INTO crawl_results\<close>, whose id is \<open>cursor.lastrowid\<close>,
  then one \<open>INSERT INTO consent_data\<close> per consent dictionary. \<open>now\<close> is the
  \<open>CURRENT_TIMESTAMP\<close> default of the \<open>timestamp\<close> column. There is no other insert.
\<close>

definition insert_consent :: "nat \<Rightarrow> consent \<Rightarrow> database \<Rightarrow> database" where
  "insert_consent crawl_id c db =
     db\<lparr>tbl_consent_data := tbl_consent_data db @
            [\<lparr>cd_id = Suc (seq_consent_data db), cd_crawl_id = Some crawl_id,
              cd_cookie_name = cs_name c, cd_cookie_domain = cs_domain c,
              cd_purpose_category = Some (cs_category c),
              cd_purpose_description = Some (cs_purpose c),
              cd_cmp_type = Some (cs_cmp c)\<rparr>],
        seq_consent_data := Suc (seq_consent_data db)\<rparr>"

definition save_crawl_result :: "string \<Rightarrow> CrawlResult \<Rightarrow> database \<Rightarrow> nat \<times> database" where
  "save_crawl_result now result db =
     (let crawl_id = Suc (seq_crawl_results db);
          db1 = db\<lparr>tbl_crawl_results := tbl_crawl_results db @
                      [\<lparr>cr_id = crawl_id, cr_domain = domain result, cr_timestamp = now,
                        cr_success = success result, cr_cmp_type = Some (cmp_type result),
                        cr_cookies_collected = cookies_collected result,
                        cr_error_message = error_message result\<rparr>],
                   seq_crawl_results := crawl_id\<rparr>
      in (crawl_id, fold (insert_consent crawl_id) (consent_data result) db1))"

text \<open>
  \<open>crawl_domains\<close>: the loop over \<open>enumerate(domains, 1)\<close>. \<open>web i\<close> is the behaviour of the
  browser during the \<open>i\<close>-th crawl and \<open>clock i\<close> the time of its insert. The summary is the
  returned dictionary without \<open>crawl_time_seconds\<close>, which is a wall-clock difference.
\<close>

record summary =
  total_domains :: nat
  successful_crawls :: nat
  failed_crawls :: nat
  cmp_types :: "(string \<times> nat) list"
  total_cookies :: nat
  domains_with_consent_data :: nat

definition update_statistics :: "CrawlResult \<Rightarrow> summary \<Rightarrow> summary" where
  "update_statistics result results =
     (if success result then
        results\<lparr>successful_crawls := successful_crawls results + 1,
                total_cookies := total_cookies results + cookies_collected result,
                domains_with_consent_data :=
                  (if consent_data result \<noteq> [] then domains_with_consent_data results + 1
                   else domains_with_consent_data results),
                cmp_types :=
                  AList.update (cmp_type result)
                    ((case map_of (cmp_types results) (cmp_type result) of
                        None \<Rightarrow> 0 | Some n \<Rightarrow> n) + 1)
                    (cmp_types results)\<rparr>
      else results\<lparr>failed_crawls := failed_crawls results + 1\<rparr>)"

fun crawl_loop ::
  "(nat \<Rightarrow> browser) \<Rightarrow> (nat \<Rightarrow> string) \<Rightarrow> nat \<Rightarrow> string list
     \<Rightarrow> summary \<times> database \<Rightarrow> summary \<times> database"
where
  "crawl_loop web clock i [] (results, db) = (results, db)"
| "crawl_loop web clock i (d # domains) (results, db) =
     (let result = fst (crawl_domain (web i) d);
          db' = snd (save_crawl_result (clock i) result db)
      in crawl_loop web clock (Suc i) domains (update_statistics result results, db'))"

definition crawl_domains ::
  "(nat \<Rightarrow> browser) \<Rightarrow> (nat \<Rightarrow> string) \<Rightarrow> string list \<Rightarrow> database \<Rightarrow> summary \<times> database"
where
  "crawl_domains web clock domains db =
     crawl_loop web clock 1 domains
       (\<lparr>total_domains = length domains, successful_crawls = 0, failed_crawls = 0,
         cmp_types = [], total_cookies = 0, domains_with_consent_data = 0\<rparr>, db)"

text \<open>The store right after \<open>init_database\<close>, and the first exception, if any, that leaves
  the \<open>try\<close> block of a crawl.\<close>

definition empty_db :: database where
  "empty_db =
     \<lparr>tbl_crawl_results = [], tbl_cookies = [], tbl_consent_data = [],
      seq_crawl_results = 0, seq_consent_data = 0\<rparr>"

definition raised_in_crawl :: "browser \<Rightarrow> exn option" where
  "raised_in_crawl b =
     (case create_driver_outcome b of
        Some e \<Rightarrow> Some e
      | None \<Rightarrow> (case navigate_outcome b of Some e \<Rightarrow> Some e | None \<Rightarrow> wait_outcome b))"

definition exception_text :: "exn \<Rightarrow> string" where
  "exception_text e =
     (case e of TimeoutException \<Rightarrow> ''Page load timeout'' | OtherException msg \<Rightarrow> msg)"

section \<open>Example browsers\<close>

text \<open>A page without a CMP that sets one cookie; a page whose load times out; a
  navigation that raises an exception with an empty text.\<close>

definition session_cookie :: browser_cookie where
  "session_cookie =
     \<lparr>bc_name = ''sid'', bc_value = ''a'', bc_path = ''/'', bc_domain = ''example.com'',
      bc_secure = True, bc_httpOnly = True, bc_expiry = None, bc_sameSite = Some ''Lax''\<rparr>"

definition no_control :: "string \<Rightarrow> accept_control" where
  "no_control selector = Lookup_raises"

definition one_cookie :: "bool \<Rightarrow> exn + browser_cookie list" where
  "one_cookie clicked = Inr [session_cookie]"

definition one_cookie_browser :: browser where
  "one_cookie_browser =
     \<lparr>create_driver_outcome = None, navigate_outcome = None, wait_outcome = None,
      page_source = Inr ''<html><body>hello</body></html>'',
      cookiebot_elements = Inr [], onetrust_elements = Inr [],
      cookies_before = Inr [session_cookie], accept_controls = no_control,
      cookies_after = one_cookie, quit_outcome = None\<rparr>"

definition timeout_browser :: browser where
  "timeout_browser = one_cookie_browser\<lparr>navigate_outcome := Some TimeoutException\<rparr>"

definition empty_message_browser :: browser where
  "empty_message_browser = one_cookie_browser\<lparr>navigate_outcome := Some (OtherException [])\<rparr>"

definition one_cookie_web :: "nat \<Rightarrow> browser" where
  "one_cookie_web i = one_cookie_browser"

definition fixed_clock :: "nat \<Rightarrow> string" where
  "fixed_clock i = ''2024-01-01 00:00:00''"

section \<open>Notions and example stores used to state the properties of the Matcher\<close>

text \<open>The number of crawls in which a (cookie name, cookie domain) pair was observed: the
  crawl records that own a cookie row with this name and domain.\<close>

definition crawls_observing :: "database \<Rightarrow> string \<Rightarrow> string \<Rightarrow> nat" where
  "crawls_observing db cname cdomain =
     length (filter (\<lambda>cr. list_ex (\<lambda>c. ck_crawl_id c = Some (cr_id cr)
                                        \<and> ck_name c = cname \<and> ck_domain c = cdomain)
                              (tbl_cookies db))
               (tbl_crawl_results db))"

definition now0 :: string where
  "now0 = ''2024-01-01T00:00:00''"

definition now1 :: string where
  "now1 = ''2024-01-01T00:00:01''"

text \<open>One successful crawl that saw the cookie \<open>sid\<close> of \<open>shop.example\<close> under two paths, with
  one declaration for it.\<close>

definition two_paths_db :: database where
  "two_paths_db =
     \<lparr>tbl_crawl_results =
        [\<lparr>cr_id = 1, cr_domain = ''https://shop.example'', cr_timestamp = ''2024-01-01 00:00:00'',
          cr_success = True, cr_cmp_type = Some ''cookiebot'', cr_cookies_collected = 2,
          cr_error_message = None\<rparr>],
      tbl_cookies =
        [\<lparr>ck_id = 1, ck_crawl_id = Some 1, ck_name = ''sid'', ck_domain = ''shop.example'',
          ck_value = Some ''a'', ck_path = Some ''/'', ck_expiry = None, ck_secure = Some True,
          ck_http_only = Some True, ck_same_site = Some ''Lax''\<rparr>,
         \<lparr>ck_id = 2, ck_crawl_id = Some 1, ck_name = ''sid'', ck_domain = ''shop.example'',
          ck_value = Some ''b'', ck_path = Some ''/cart'', ck_expiry = None, ck_secure = Some True,
          ck_http_only = Some True, ck_same_site = Some ''Lax''\<rparr>],
      tbl_consent_data =
        [\<lparr>cd_id = 1, cd_crawl_id = Some 1, cd_cookie_name = ''sid'',
          cd_cookie_domain = ''shop.example'', cd_purpose_category = Some ''Necessary'',
          cd_purpose_description = Some ''Session'', cd_cmp_type = Some ''cookiebot''\<rparr>],
      seq_crawl_results = 1, seq_consent_data = 1\<rparr>"

text \<open>Two successful crawls that both saw the cookie \<open>sid\<close> of \<open>cdn.example\<close>; only the first
  has a declaration for it.\<close>

definition two_crawls_db :: database where
  "two_crawls_db =
     \<lparr>tbl_crawl_results =
        [\<lparr>cr_id = 1, cr_domain = ''https://a.example'', cr_timestamp = ''2024-01-01 00:00:00'',
          cr_success = True, cr_cmp_type = Some ''cookiebot'', cr_cookies_collected = 1,
          cr_error_message = None\<rparr>,
         \<lparr>cr_id = 2, cr_domain = ''https://b.example'', cr_timestamp = ''2024-01-01 00:01:00'',
          cr_success = True, cr_cmp_type = Some ''unknown'', cr_cookies_collected = 1,
          cr_error_message = None\<rparr>],
      tbl_cookies =
        [\<lparr>ck_id = 1, ck_crawl_id = Some 1, ck_name = ''sid'', ck_domain = ''cdn.example'',
          ck_value = Some ''a'', ck_path = Some ''/'', ck_expiry = None, ck_secure = Some True,
          ck_http_only = Some False, ck_same_site = None\<rparr>,
         \<lparr>ck_id = 2, ck_crawl_id = Some 2, ck_name = ''sid'', ck_domain = ''cdn.example'',
          ck_value = Some ''b'', ck_path = Some ''/'', ck_expiry = None, ck_secure = Some True,
          ck_http_only = Some False, ck_same_site = None\<rparr>],
      tbl_consent_data =
        [\<lparr>cd_id = 1, cd_crawl_id = Some 1, cd_cookie_name = ''sid'',
          cd_cookie_domain = ''cdn.example'', cd_purpose_category = Some ''Necessary'',
          cd_purpose_description = Some ''Session'', cd_cmp_type = Some ''cookiebot''\<rparr>],
      seq_crawl_results = 2, seq_consent_data = 1\<rparr>"

text \<open>The two rows the query gives for \<open>two_paths_db\<close>; they have the same sort key.\<close>

definition root_path_row :: joined_row where
  "root_path_row =
     \<lparr>row_crawl_id = 1, row_domain = ''https://shop.example'', row_cmp_type = Some ''cookiebot'',
      row_success = True, cookie_name = Some ''sid'', cookie_domain = Some ''shop.example'',
      cookie_value = Some ''a'', cookie_path = Some ''/'', cookie_expiry = None,
      cookie_secure = Some True, cookie_http_only = Some True, cookie_same_site = Some ''Lax'',
      purpose_category = Some ''Necessary'', purpose_description = Some ''Session''\<rparr>"

definition cart_path_row :: joined_row where
  "cart_path_row =
     \<lparr>row_crawl_id = 1, row_domain = ''https://shop.example'', row_cmp_type = Some ''cookiebot'',
      row_success = True, cookie_name = Some ''sid'', cookie_domain = Some ''shop.example'',
      cookie_value = Some ''b'', cookie_path = Some ''/cart'', cookie_expiry = None,
      cookie_secure = Some True, cookie_http_only = Some True, cookie_same_site = Some ''Lax'',
      purpose_category = Some ''Necessary'', purpose_description = Some ''Session''\<rparr>"

text \<open>The two rows the query gives for \<open>two_crawls_db\<close>.\<close>

definition matched_row :: joined_row where
  "matched_row =
     \<lparr>row_crawl_id = 1, row_domain = ''https://a.example'', row_cmp_type = Some ''cookiebot'',
      row_success = True, cookie_name = Some ''sid'', cookie_domain = Some ''cdn.example'',
      cookie_value = Some ''a'', cookie_path = Some ''/'', cookie_expiry = None,
      cookie_secure = Some True, cookie_http_only = Some False, cookie_same_site = None,
      purpose_category = Some ''Necessary'', purpose_description = Some ''Session''\<rparr>"

definition unmatched_row :: joined_row where
  "unmatched_row =
     \<lparr>row_crawl_id = 2, row_domain = ''https://b.example'', row_cmp_type = Some ''unknown'',
      row_success = True, cookie_name = Some ''sid'', cookie_domain = Some ''cdn.example'',
      cookie_value = Some ''b'', cookie_path = Some ''/'', cookie_expiry = None,
      cookie_secure = Some True, cookie_http_only = Some False, cookie_same_site = None,
      purpose_category = None, purpose_description = None\<rparr>"

section \<open>Notions used to state the properties of the Presence Probe\<close>

text \<open>\<open>take_until P xs\<close> is the part of \<open>xs\<close> up to and including its first element that
  satisfies \<open>P\<close> (all of \<open>xs\<close> when there is none).\<close>

fun take_until :: "('a \<Rightarrow> bool) \<Rightarrow> 'a list \<Rightarrow> 'a list" where
  "take_until P [] = []"
| "take_until P (x # xs) = (if P x then [x] else x # take_until P xs)"

text \<open>An attempt ends the prefix loop unless it raises a connection or timeout error.\<close>

definition stops :: "(string \<Rightarrow> get_outcome) \<Rightarrow> string \<Rightarrow> bool" where
  "stops get u = (get u \<noteq> Raised ConnectionTimeoutError)"

text \<open>The stopping condition in the specification's words: the attempt yields an HTTP
  response or an SSL/scheme-class error.\<close>

definition claimed_stops :: "(string \<Rightarrow> get_outcome) \<Rightarrow> string \<Rightarrow> bool" where
  "claimed_stops get u =
     (case get u of
        Returned r \<Rightarrow> True
      | Raised SSLSchemaError \<Rightarrow> True
      | Raised e \<Rightarrow> False)"

text \<open>Concrete networks and inputs for the examples. \<open>scheme_by_prefix\<close> gives for the
  example inputs what \<open>urlparse\<close> gives: it rejects \<open>http://[x\<close>, whose bracket is not
  closed, and finds the scheme of the others.\<close>

definition scheme_by_prefix :: "string \<Rightarrow> string option" where
  "scheme_by_prefix d =
     (if d = ''http://[x'' then None
      else if prefix ''https:'' d then Some ''https''
      else if prefix ''http:'' d then Some ''http''
      else Some [])"

definition all_unexpected :: "string \<Rightarrow> get_outcome" where
  "all_unexpected u = Raised UnexpectedError"

definition all_down :: "string \<Rightarrow> get_outcome" where
  "all_down u = Raised ConnectionTimeoutError"

definition both_markers_body :: string where
  "both_markers_body =
     ''<script src=https://consent.cookiebot.com/uc.js></script><script src=https://cdn.cookielaw.org/otSDKStub.js></script>''"

definition both_markers_response :: response where
  "both_markers_response =
     \<lparr>status_code = 200, resp_url = ''https://example.com/'', resp_text = both_markers_body\<rparr>"

definition www_down :: "string \<Rightarrow> get_outcome" where
  "www_down u =
     (if u = ''https://www.example.com'' then Raised ConnectionTimeoutError
      else Returned both_markers_response)"








text \<open>A page whose OneTrust URL is written with a dotless i.\<close>

definition dotless_i_response :: response where
  "dotless_i_response =
     \<lparr>status_code = 200, resp_url = ''https://example.com/'',
      resp_text = ''<script src=https://cdn.cook'' @ [CHR 0xC4, CHR 0xB1]
                    @ ''elaw.org/otSDKStub.js></script>''\<rparr>"

section \<open>Facts about strings\<close>

lemma lower_Nil_iff: "lower s = [] \<longleftrightarrow> s = []"
  by (cases s) simp_all


lemma map_purpose_category_first:
  "map_purpose_category (Some c) =
     (if c = [] then - 1 else first_category purpose_table (lower c))"
  by (simp add: map_purpose_category_def purpose_table_def py_any_def Let_def)

section \<open>Label normalization\<close>

text \<open>
  C7. For every declared-purpose text, \<open>_map_purpose_category\<close> is the ordered,
  case-insensitive keyword-containment test over necessary (0), functional (1),
  analytics (2), advertising (3), social (4): it returns the code of the first category of
  the table one of whose keywords occurs in the lower-cased text, and \<open>-1\<close> when no
  category matches, when the text is empty or when it is \<open>None\<close>. Two texts that differ only
  in letter case get the same label. "Strictly Necessary Cookies" maps to 0,
  "Marketing & Advertising" maps to 3, and "Unclassified" and the empty text map to -1.
\<close>

theorem map_purpose_category_ordered:
  "map_purpose_category None = - 1
   \<and> map_purpose_category (Some []) = - 1
   \<and> (c \<noteq> [] \<longrightarrow> map_purpose_category (Some c) = first_category purpose_table (lower c))
   \<and> ((\<forall>(code, kws) \<in> set purpose_table. \<forall>kw \<in> set kws. \<not> str_in kw (lower c))
        \<longrightarrow> map_purpose_category (Some c) = - 1)
   \<and> (lower c = lower c' \<longrightarrow> map_purpose_category (Some c) = map_purpose_category (Some c'))
   \<and> map_purpose_category (Some c) \<in> {- 1, 0, 1, 2, 3, 4}
   \<and> map_purpose_category (Some ''Strictly Necessary Cookies'') = 0
   \<and> map_purpose_category (Some ''Marketing & Advertising'') = 3
   \<and> map_purpose_category (Some ''Unclassified'') = - 1"
proof -
  have none: "map_purpose_category None = - 1"
    by (simp add: map_purpose_category_def)
  have nomatch: "(\<forall>(code, kws) \<in> set purpose_table. \<forall>kw \<in> set kws. \<not> str_in kw (lower c))
        \<longrightarrow> map_purpose_category (Some c) = - 1"
    by (simp add: map_purpose_category_first purpose_table_def)
  have fold_case: "lower c = lower c' \<longrightarrow>
      map_purpose_category (Some c) = map_purpose_category (Some c')"
  proof
    assume eq: "lower c = lower c'"
    then have "(c = []) = (c' = [])"
      by (metis lower_Nil_iff)
    with eq show "map_purpose_category (Some c) = map_purpose_category (Some c')"
      by (simp add: map_purpose_category_first)
  qed
  have range: "map_purpose_category (Some c) \<in> {- 1, 0, 1, 2, 3, 4}"
    by (simp add: map_purpose_category_def Let_def)
  have e1: "map_purpose_category (Some ''Strictly Necessary Cookies'') = 0"
    by code_simp
  have e2: "map_purpose_category (Some ''Marketing & Advertising'') = 3"
    by code_simp
  have e3: "map_purpose_category (Some ''Unclassified'') = - 1"
    by code_simp
  show ?thesis
    using none nomatch fold_case range e1 e2 e3
    by (simp add: map_purpose_category_first)
qed

theorem map_purpose_category_ordered_witness:
  "''MARKETING'' \<noteq> []
   \<and> lower ''MARKETING'' = lower ''Marketing''
   \<and> map_purpose_category (Some ''MARKETING'') = first_category purpose_table (lower ''MARKETING'')
   \<and> map_purpose_category (Some ''MARKETING'') = map_purpose_category (Some ''Marketing'')
   \<and> map_purpose_category (Some ''MARKETING'') = 3"
proof -
  have h: "lower ''MARKETING'' = lower ''Marketing''"
    by code_simp
  have v: "first_category purpose_table (lower ''MARKETING'') = 3"
    by code_simp
  show ?thesis
    using map_purpose_category_ordered [of "''MARKETING''" "''Marketing''"] h v
    by simp
qed

section \<open>The prefix loop of the Presence Probe\<close>

lemma try_prefixes_advance:
  "get (p @ s) = Raised ConnectionTimeoutError \<Longrightarrow>
   try_prefixes get d s (p # ps) =
     (fst (try_prefixes get d s ps), (p @ s) # snd (try_prefixes get d s ps))"
  by (simp add: split_beta)

lemma try_prefixes_stop:
  "get (p @ s) \<noteq> Raised ConnectionTimeoutError \<Longrightarrow>
   snd (try_prefixes get d s (p # ps)) = [p @ s]"
proof (cases "get (p @ s)")
  case (Returned r)
  then show ?thesis by (simp add: Let_def)
next
  case (Raised e)
  assume "get (p @ s) \<noteq> Raised ConnectionTimeoutError"
  with Raised show ?thesis by (cases e) simp_all
qed

lemma try_prefixes_break:
  "get (p @ s) = Returned r \<Longrightarrow> resp_ok r \<Longrightarrow>
   fst (try_prefixes get d s (p # ps)) = Break r"
  by (simp add: Let_def)

lemma try_prefixes_attempts:
  "snd (try_prefixes get d s ps) = take_until (stops get) (map (\<lambda>p. p @ s) ps)"
proof (induction ps)
  case Nil
  show ?case by simp
next
  case (Cons p ps)
  show ?case
  proof (cases "get (p @ s) = Raised ConnectionTimeoutError")
    case True
    with Cons.IH show ?thesis
      by (simp only: try_prefixes_advance [of get p s d ps, OF True] snd_conv list.map take_until.simps
          stops_def simp_thms if_False)
  next
    case False
    then show ?thesis
      by (simp only: try_prefixes_stop [of get p s d ps, OF False] list.map take_until.simps
          stops_def simp_thms if_True)
  qed
qed

lemma try_prefixes_exhausted:
  "\<forall>u \<in> set (snd (try_prefixes get d s ps)). get u = Raised ConnectionTimeoutError
   \<Longrightarrow> fst (try_prefixes get d s ps) = Exhausted"
proof (induction ps)
  case Nil
  show ?case by simp
next
  case (Cons p ps)
  show ?case
  proof (cases "get (p @ s) = Raised ConnectionTimeoutError")
    case True
    from Cons.prems have "\<forall>u \<in> set (snd (try_prefixes get d s ps)).
        get u = Raised ConnectionTimeoutError"
      by (simp only: try_prefixes_advance [of get p s d ps, OF True] snd_conv) simp
    then have "fst (try_prefixes get d s ps) = Exhausted" by (rule Cons.IH)
    then show ?thesis by (simp only: try_prefixes_advance [of get p s d ps, OF True] fst_conv)
  next
    case False
    from Cons.prems have "get (p @ s) = Raised ConnectionTimeoutError"
      by (simp only: try_prefixes_stop [of get p s d ps, OF False]) simp
    with False show ?thesis by contradiction
  qed
qed

lemma try_prefixes_nonempty: "ps \<noteq> [] \<Longrightarrow> snd (try_prefixes get d s ps) \<noteq> []"
proof (cases ps)
  case Nil
  assume "ps \<noteq> []"
  with Nil show ?thesis by contradiction
next
  case (Cons p qs)
  show ?thesis
  proof (cases "get (p @ s) = Raised ConnectionTimeoutError")
    case True
    show ?thesis unfolding Cons by (simp only: try_prefixes_advance [of get p s d qs, OF True] snd_conv) simp
  next
    case False
    show ?thesis unfolding Cons by (simp only: try_prefixes_stop [of get p s d qs, OF False]) simp
  qed
qed

lemma try_prefixes_last:
  "ps \<noteq> [] \<Longrightarrow> get (last (snd (try_prefixes get d s ps))) = Returned r \<Longrightarrow> resp_ok r
   \<Longrightarrow> fst (try_prefixes get d s ps) = Break r"
proof (induction ps)
  case Nil
  then show ?case by simp
next
  case (Cons p ps)
  show ?case
  proof (cases "get (p @ s) = Raised ConnectionTimeoutError")
    case True
    note adv = try_prefixes_advance [of get p s d ps, OF True]
    from adv have sn: "snd (try_prefixes get d s (p # ps)) =
        (p @ s) # snd (try_prefixes get d s ps)"
      by (simp only: snd_conv)
    from adv have ft: "fst (try_prefixes get d s (p # ps)) = fst (try_prefixes get d s ps)"
      by (simp only: fst_conv)
    show ?thesis
    proof (cases "ps = []")
      case True
      from Cons.prems(2) have "get (p @ s) = Returned r"
        unfolding sn by (simp add: True)
      with \<open>get (p @ s) = Raised ConnectionTimeoutError\<close> show ?thesis by simp
    next
      case False
      from Cons.prems(2) try_prefixes_nonempty [OF False, of get d s]
      have "get (last (snd (try_prefixes get d s ps))) = Returned r"
        unfolding sn by simp
      then have "fst (try_prefixes get d s ps) = Break r"
        using Cons.IH False Cons.prems(3) by blast
      then show ?thesis unfolding ft .
    qed
  next
    case False
    from Cons.prems(2) have "get (p @ s) = Returned r"
      by (simp only: try_prefixes_stop [of get p s d ps, OF False]) simp
    then show ?thesis using Cons.prems(3) by (rule try_prefixes_break)
  qed
qed

lemma attempted_urls_unfold:
  "urlparse_scheme d = Some scheme \<Longrightarrow>
   attempted_urls urlparse_scheme get d =
     snd (try_prefixes get d
       (if scheme = ''http'' \<or> scheme = ''https'' then d else strip_www d)
       (if scheme = ''http'' \<or> scheme = ''https'' then [[]]
        else [''https://www.'', ''https://'', ''http://'']))"
  by (cases "scheme = ''http'' \<or> scheme = ''https''")
     (simp_all add: attempted_urls_def run_reachability_check_attempts_def prefix_choice_def
        split_beta del: try_prefixes.simps)

lemma run_reachability_check_unfold:
  "urlparse_scheme d = Some scheme \<Longrightarrow>
   run_reachability_check urlparse_scheme get d =
     Inr (case fst (try_prefixes get d
                (if scheme = ''http'' \<or> scheme = ''https'' then d else strip_www d)
                (if scheme = ''http'' \<or> scheme = ''https'' then [[]]
                 else [''https://www.'', ''https://'', ''http://''])) of
            Return res \<Rightarrow> res
          | Break r \<Rightarrow> (resp_url r, cmp_classification r)
          | Exhausted \<Rightarrow> (d, CONNECT_FAIL))"
  by (cases "scheme = ''http'' \<or> scheme = ''https''")
     (simp_all add: run_reachability_check_def run_reachability_check_attempts_def
        prefix_choice_def split_beta check_cmp_def Let_def
        del: try_prefixes.simps split: loop_exit.splits)

lemma urlparse_raises:
  "urlparse_scheme d = None \<Longrightarrow>
   run_reachability_check urlparse_scheme get d = Inl ValueError
   \<and> attempted_urls urlparse_scheme get d = []"
  by (simp add: run_reachability_check_def attempted_urls_def
      run_reachability_check_attempts_def prefix_choice_def)

lemma attempted_urls_empty_iff:
  "attempted_urls urlparse_scheme get d = [] \<longleftrightarrow> urlparse_scheme d = None"
proof (cases "urlparse_scheme d")
  case None
  then show ?thesis by (simp add: urlparse_raises)
next
  case (Some scheme)
  have "snd (try_prefixes get d
       (if scheme = ''http'' \<or> scheme = ''https'' then d else strip_www d)
       (if scheme = ''http'' \<or> scheme = ''https'' then [[]]
        else [''https://www.'', ''https://'', ''http://''])) \<noteq> []"
    by (rule try_prefixes_nonempty) simp
  with Some show ?thesis by (simp add: attempted_urls_unfold [where urlparse_scheme = urlparse_scheme and d = d, OF Some])
qed

section \<open>URL resolution\<close>

text \<open>
  C4, as the specification states it, fails: the loop does not only stop at the first
  attempt that yields an HTTP response or an SSL/scheme-class error. When the first
  attempt for \<open>example.com\<close> raises any other unexpected exception, \<open>https://www.example.com\<close>
  is the only URL requested, although no attempt has yielded a response or an
  SSL/scheme-class error, so the stated rule would go on to all three prefixes.
\<close>

theorem attempts_stop_on_unexpected_error:
  "attempted_urls scheme_by_prefix all_unexpected ''example.com'' = [''https://www.example.com'']
   \<and> take_until (claimed_stops all_unexpected)
        [''https://www.'' @ strip_www ''example.com'', ''https://'' @ strip_www ''example.com'',
         ''http://'' @ strip_www ''example.com'']
      = [''https://www.example.com'', ''https://example.com'', ''http://example.com'']"
  by code_simp

text \<open>
  C4, amended. An input that \<open>urlparse\<close> rejects with \<open>ValueError\<close> is not attempted at all:
  the exception leaves \<open>run_reachability_check\<close>. For every other input: when its \<open>urlparse\<close>
  scheme is \<open>http\<close> or \<open>https\<close>, \<open>run_reachability_check\<close> requests exactly that URL and nothing
  else; otherwise it strips a leading \<open>www.\<close> and requests \<open>https://www.\<close>, \<open>https://\<close>,
  \<open>http://\<close> plus the host in this order, stopping at the first attempt that does not raise
  a connection/timeout-class error, that is, at the first attempt that yields an HTTP
  response, an SSL/scheme-class error or any other unexpected exception. When every
  requested URL raised a connection/timeout-class error, the result is CONNECT\_FAIL with
  the original input.
\<close>

theorem attempts_fixed_order:
  "(urlparse_scheme d = None
      \<longrightarrow> run_reachability_check urlparse_scheme get d = Inl ValueError
          \<and> attempted_urls urlparse_scheme get d = [])
   \<and> (urlparse_scheme d = Some ''http'' \<or> urlparse_scheme d = Some ''https''
      \<longrightarrow> attempted_urls urlparse_scheme get d = [d])
   \<and> (urlparse_scheme d = Some scheme \<and> scheme \<noteq> ''http'' \<and> scheme \<noteq> ''https''
      \<longrightarrow> attempted_urls urlparse_scheme get d =
            take_until (stops get)
              [''https://www.'' @ strip_www d, ''https://'' @ strip_www d, ''http://'' @ strip_www d])
   \<and> (urlparse_scheme d \<noteq> None
        \<and> (\<forall>u \<in> set (attempted_urls urlparse_scheme get d). get u = Raised ConnectionTimeoutError)
      \<longrightarrow> run_reachability_check urlparse_scheme get d = Inr (d, CONNECT_FAIL))"
proof -
  have r: "urlparse_scheme d = None
      \<longrightarrow> run_reachability_check urlparse_scheme get d = Inl ValueError
          \<and> attempted_urls urlparse_scheme get d = []"
    by (simp add: urlparse_raises)
  have a: "urlparse_scheme d = Some ''http'' \<or> urlparse_scheme d = Some ''https''
      \<longrightarrow> attempted_urls urlparse_scheme get d = [d]"
  proof
    assume "urlparse_scheme d = Some ''http'' \<or> urlparse_scheme d = Some ''https''"
    then obtain s where s: "urlparse_scheme d = Some s" and h: "s = ''http'' \<or> s = ''https''"
      by blast
    have "attempted_urls urlparse_scheme get d = snd (try_prefixes get d d [[]])"
      using h by (simp only: attempted_urls_unfold [where urlparse_scheme = urlparse_scheme and d = d, OF s] if_True)
    also have "\<dots> = take_until (stops get) (map (\<lambda>p. p @ d) [[]])"
      by (rule try_prefixes_attempts)
    also have "\<dots> = [d]"
      by simp
    finally show "attempted_urls urlparse_scheme get d = [d]" .
  qed
  have b: "urlparse_scheme d = Some scheme \<and> scheme \<noteq> ''http'' \<and> scheme \<noteq> ''https''
      \<longrightarrow> attempted_urls urlparse_scheme get d =
            take_until (stops get)
              [''https://www.'' @ strip_www d, ''https://'' @ strip_www d, ''http://'' @ strip_www d]"
  proof
    assume h: "urlparse_scheme d = Some scheme \<and> scheme \<noteq> ''http'' \<and> scheme \<noteq> ''https''"
    then have s: "urlparse_scheme d = Some scheme" and n: "\<not> (scheme = ''http'' \<or> scheme = ''https'')"
      by simp_all
    have "attempted_urls urlparse_scheme get d =
        snd (try_prefixes get d (strip_www d) [''https://www.'', ''https://'', ''http://''])"
      using n by (simp only: attempted_urls_unfold [where urlparse_scheme = urlparse_scheme and d = d, OF s] if_False)
    also have "\<dots> = take_until (stops get)
        (map (\<lambda>p. p @ strip_www d) [''https://www.'', ''https://'', ''http://''])"
      by (rule try_prefixes_attempts)
    finally show "attempted_urls urlparse_scheme get d =
            take_until (stops get)
              [''https://www.'' @ strip_www d, ''https://'' @ strip_www d, ''http://'' @ strip_www d]"
      by simp
  qed
  have c: "urlparse_scheme d \<noteq> None
        \<and> (\<forall>u \<in> set (attempted_urls urlparse_scheme get d). get u = Raised ConnectionTimeoutError)
      \<longrightarrow> run_reachability_check urlparse_scheme get d = Inr (d, CONNECT_FAIL)"
  proof
    assume h: "urlparse_scheme d \<noteq> None
        \<and> (\<forall>u \<in> set (attempted_urls urlparse_scheme get d). get u = Raised ConnectionTimeoutError)"
    then obtain s where s: "urlparse_scheme d = Some s"
      by blast
    let ?suffix = "if s = ''http'' \<or> s = ''https'' then d else strip_www d"
    let ?prefixes = "if s = ''http'' \<or> s = ''https'' then [[]]
        else [''https://www.'', ''https://'', ''http://'']"
    from h have "\<forall>u \<in> set (snd (try_prefixes get d ?suffix ?prefixes)).
        get u = Raised ConnectionTimeoutError"
      by (simp only: attempted_urls_unfold [where urlparse_scheme = urlparse_scheme and d = d, OF s]) simp
    then have "fst (try_prefixes get d ?suffix ?prefixes) = Exhausted"
      by (rule try_prefixes_exhausted)
    then show "run_reachability_check urlparse_scheme get d = Inr (d, CONNECT_FAIL)"
      by (simp only: run_reachability_check_unfold [where urlparse_scheme = urlparse_scheme and d = d, OF s]) simp
  qed
  from r a b c show ?thesis by (intro conjI)
qed

theorem attempts_fixed_order_witness:
  "scheme_by_prefix ''http://[x'' = None
   \<and> run_reachability_check scheme_by_prefix www_down ''http://[x'' = Inl ValueError
   \<and> attempted_urls scheme_by_prefix www_down ''http://[x'' = []
   \<and> scheme_by_prefix ''https://example.com'' = Some ''https''
   \<and> attempted_urls scheme_by_prefix www_down ''https://example.com'' = [''https://example.com'']
   \<and> scheme_by_prefix ''www.example.com'' = Some []
   \<and> attempted_urls scheme_by_prefix www_down ''www.example.com''
       = [''https://www.example.com'', ''https://example.com'']
   \<and> list_all (\<lambda>u. all_down u = Raised ConnectionTimeoutError)
         (attempted_urls scheme_by_prefix all_down ''www.example.com'')
   \<and> run_reachability_check scheme_by_prefix all_down ''www.example.com''
       = Inr (''www.example.com'', CONNECT_FAIL)"
proof -
  have s0: "scheme_by_prefix ''http://[x'' = None"
    by code_simp
  have s1: "scheme_by_prefix ''https://example.com'' = Some ''https''"
    by code_simp
  have s2: "scheme_by_prefix ''www.example.com'' = Some []"
    by code_simp
  have t: "take_until (stops www_down)
      [''https://www.'' @ strip_www ''www.example.com'', ''https://'' @ strip_www ''www.example.com'',
       ''http://'' @ strip_www ''www.example.com'']
      = [''https://www.example.com'', ''https://example.com'']"
    by code_simp
  have d: "\<forall>u \<in> set (attempted_urls scheme_by_prefix all_down ''www.example.com'').
      all_down u = Raised ConnectionTimeoutError"
    by (simp add: all_down_def)
  note w0 = attempts_fixed_order [of scheme_by_prefix "''http://[x''" www_down, THEN conjunct1]
  note w1 = attempts_fixed_order [of scheme_by_prefix "''https://example.com''" www_down,
      THEN conjunct2, THEN conjunct1]
  note w2 = attempts_fixed_order [of scheme_by_prefix "''www.example.com''" www_down "[]",
      THEN conjunct2, THEN conjunct2, THEN conjunct1]
  note w3 = attempts_fixed_order [of scheme_by_prefix "''www.example.com''" all_down,
      THEN conjunct2, THEN conjunct2, THEN conjunct2]
  have c0: "run_reachability_check scheme_by_prefix www_down ''http://[x'' = Inl ValueError
      \<and> attempted_urls scheme_by_prefix www_down ''http://[x'' = []"
    using w0 s0 by (rule mp)
  have c1: "attempted_urls scheme_by_prefix www_down ''https://example.com''
      = [''https://example.com'']"
    using w1 s1 by simp
  have c2: "attempted_urls scheme_by_prefix www_down ''www.example.com''
       = [''https://www.example.com'', ''https://example.com'']"
    using w2 s2 t by simp
  have c3: "run_reachability_check scheme_by_prefix all_down ''www.example.com''
       = Inr (''www.example.com'', CONNECT_FAIL)"
    using w3 s2 d by simp
  have l: "list_all (\<lambda>u. all_down u = Raised ConnectionTimeoutError)
         (attempted_urls scheme_by_prefix all_down ''www.example.com'')"
    using d by (simp add: list_all_iff)
  from s0 c0 [THEN conjunct1] c0 [THEN conjunct2] s1 c1 s2 c2 l c3 show ?thesis
    by (intro conjI)
qed

section \<open>Content classification\<close>

text \<open>
  C5. Whenever the probe ends its attempts with a 2xx response, its result is the URL of
  that response together with the first matching fingerprint family in the order
  Cookiebot, OneTrust, Termly, and NOCMP when no family matches. In particular a body
  that matches both Cookiebot and OneTrust classifies as COOKIEBOT.
\<close>

theorem classification_precedence:
  assumes "attempted_urls urlparse_scheme get d \<noteq> []"
    and "get (last (attempted_urls urlparse_scheme get d)) = Returned r"
    and "200 \<le> status_code r" and "status_code r < 300"
  shows "run_reachability_check urlparse_scheme get d =
           Inr (resp_url r,
                if check_cookiebot_presence r then COOKIEBOT
                else if check_onetrust_presence r then ONETRUST
                else if check_termly_presence r then TERMLY
                else NOCMP)
         \<and> (check_cookiebot_presence r \<and> check_onetrust_presence r
              \<longrightarrow> run_reachability_check urlparse_scheme get d = Inr (resp_url r, COOKIEBOT))"
proof -
  have ok: "resp_ok r" using assms(3,4) by (simp add: resp_ok_def)
  from assms(1) obtain s where s: "urlparse_scheme d = Some s"
    by (auto simp: attempted_urls_empty_iff)
  let ?suffix = "if s = ''http'' \<or> s = ''https'' then d else strip_www d"
  let ?prefixes = "if s = ''http'' \<or> s = ''https'' then [[]]
      else [''https://www.'', ''https://'', ''http://'']"
  have ne: "?prefixes \<noteq> []"
    by simp
  from assms(2) have "get (last (snd (try_prefixes get d ?suffix ?prefixes))) = Returned r"
    by (simp only: attempted_urls_unfold [where urlparse_scheme = urlparse_scheme and d = d, OF s])
  with ne have "fst (try_prefixes get d ?suffix ?prefixes) = Break r"
    using ok by (rule try_prefixes_last)
  then have "run_reachability_check urlparse_scheme get d = Inr (resp_url r, cmp_classification r)"
    by (simp only: run_reachability_check_unfold [where urlparse_scheme = urlparse_scheme and d = d, OF s]) simp
  then show ?thesis
    by (simp add: cmp_classification_def)
qed

theorem classification_precedence_witness:
  "attempted_urls scheme_by_prefix www_down ''www.example.com'' \<noteq> []
   \<and> www_down (last (attempted_urls scheme_by_prefix www_down ''www.example.com''))
     = Returned both_markers_response
   \<and> 200 \<le> status_code both_markers_response \<and> status_code both_markers_response < 300
   \<and> check_cookiebot_presence both_markers_response
   \<and> check_onetrust_presence both_markers_response
   \<and> run_reachability_check scheme_by_prefix www_down ''www.example.com''
       = Inr (''https://example.com/'', COOKIEBOT)"
proof -
  have h0: "attempted_urls scheme_by_prefix www_down ''www.example.com'' \<noteq> []"
    by code_simp
  have h1: "www_down (last (attempted_urls scheme_by_prefix www_down ''www.example.com''))
     = Returned both_markers_response"
    by code_simp
  have h2: "200 \<le> status_code both_markers_response"
    by (simp add: both_markers_response_def)
  have h3: "status_code both_markers_response < 300"
    by (simp add: both_markers_response_def)
  have cb: "check_cookiebot_presence both_markers_response"
    by code_simp
  have ot: "check_onetrust_presence both_markers_response"
    by code_simp
  have u: "resp_url both_markers_response = ''https://example.com/''"
    by (simp add: both_markers_response_def)
  note t = classification_precedence
        [of scheme_by_prefix www_down "''www.example.com''" both_markers_response,
         OF h0 h1 h2 h3, THEN conjunct2]
  have res: "run_reachability_check scheme_by_prefix www_down ''www.example.com''
       = Inr (''https://example.com/'', COOKIEBOT)"
    using mp [OF t conjI [OF cb ot]] u by simp
  from h0 h1 h2 h3 cb ot res show ?thesis
    by (intro conjI)
qed

section \<open>Probe signatures contain the Extractor keywords\<close>













lemma ignorecase_matches_dotless_i:
  "cmp_classification dotless_i_response = ONETRUST
   \<and> detect_cmp_type (Some (resp_text dotless_i_response)) = ''unknown''"
  by code_simp

section \<open>Agreement of the two classifications\<close>




section \<open>The extraction loop\<close>

lemma hd_variable_data_make_entry: "hd (variable_data (make_entry row)) = row_variable_data row"
  by (simp add: make_entry_def)

lemma map_fst_map_entry: "map fst (AList.map_entry k f xs) = map fst xs"
  by (induction xs) auto

lemma process_row_skip:
  "\<not> retained flag row \<Longrightarrow> extracted_data (process_row flag row st) = extracted_data st"
  by (simp add: process_row_def retained_def Let_def)

lemma process_row_new:
  "retained flag row \<Longrightarrow> map_of (extracted_data st) (cookie_id row) = None \<Longrightarrow>
   extracted_data (process_row flag row st) = extracted_data st @ [(cookie_id row, make_entry row)]"
  by (auto simp: process_row_def retained_def Let_def)

lemma process_row_old:
  "retained flag row \<Longrightarrow> map_of (extracted_data st) (cookie_id row) = Some e \<Longrightarrow>
   extracted_data (process_row flag row st) =
     AList.map_entry (cookie_id row) (append_variable_data (row_variable_data row))
       (extracted_data st)"
  by (auto simp: process_row_def retained_def Let_def hd_variable_data_make_entry)

lemma process_row_lookup:
  "map_of (extracted_data (process_row flag row st)) k =
     (if retained flag row \<and> cookie_id row = k
      then (case map_of (extracted_data st) k of
              Some e \<Rightarrow> Some (append_variable_data (row_variable_data row) e)
            | None \<Rightarrow> Some (make_entry row))
      else map_of (extracted_data st) k)"
proof (cases "retained flag row")
  case False
  then show ?thesis by (simp add: process_row_skip)
next
  case True
  show ?thesis
  proof (cases "map_of (extracted_data st) (cookie_id row)")
    case None
    with True show ?thesis
      by (auto simp: process_row_new map_add_def split: option.splits)
  next
    case (Some e)
    with True show ?thesis
      by (auto simp: process_row_old map_of_map_entry)
  qed
qed

lemma process_row_keys:
  "map fst (extracted_data (process_row flag row st)) =
     (if retained flag row \<and> map_of (extracted_data st) (cookie_id row) = None
      then map fst (extracted_data st) @ [cookie_id row]
      else map fst (extracted_data st))"
proof (cases "retained flag row")
  case False
  then show ?thesis by (simp add: process_row_skip)
next
  case True
  show ?thesis
  proof (cases "map_of (extracted_data st) (cookie_id row)")
    case None
    with True show ?thesis by (simp add: process_row_new)
  next
    case (Some e)
    with True show ?thesis by (simp add: process_row_old map_fst_map_entry)
  qed
qed

lemma process_row_distinct:
  "distinct (map fst (extracted_data st)) \<Longrightarrow>
   distinct (map fst (extracted_data (process_row flag row st)))"
  by (simp add: process_row_keys map_of_eq_None_iff)

lemma fold_distinct:
  "distinct (map fst (extracted_data st)) \<Longrightarrow>
   distinct (map fst (extracted_data (fold (process_row flag) rows st)))"
  by (induction rows arbitrary: st) (simp_all add: process_row_distinct)

lemma fold_lookup:
  "map_of (extracted_data (fold (process_row flag) rows st)) k =
     (case map_of (extracted_data st) k of
        Some e \<Rightarrow>
          Some (e\<lparr>variable_data :=
                    variable_data e @ map row_variable_data (rows_of_key flag k rows)\<rparr>)
      | None \<Rightarrow>
          (case rows_of_key flag k rows of
             [] \<Rightarrow> None
           | r0 # rest \<Rightarrow>
               Some ((make_entry r0)\<lparr>variable_data := map row_variable_data (r0 # rest)\<rparr>)))"
proof (induction rows arbitrary: st)
  case Nil
  show ?case by (simp add: rows_of_key_def split: option.splits)
next
  case (Cons row rows)
  have step: "fold (process_row flag) (row # rows) st =
      fold (process_row flag) rows (process_row flag row st)"
    by simp
  show ?case
  proof (cases "retained flag row \<and> cookie_id row = k")
    case False
    then have rk: "rows_of_key flag k (row # rows) = rows_of_key flag k rows"
      by (auto simp: rows_of_key_def)
    show ?thesis
      unfolding step Cons.IH rk by (simp only: process_row_lookup if_not_P [OF False])
  next
    case True
    then have rk: "rows_of_key flag k (row # rows) = row # rows_of_key flag k rows"
      by (simp add: rows_of_key_def)
    show ?thesis
    proof (cases "map_of (extracted_data st) k")
      case None
      with True show ?thesis
        unfolding step Cons.IH rk
        by (simp add: process_row_lookup make_entry_def)
    next
      case (Some e)
      with True show ?thesis
        unfolding step Cons.IH rk
        by (simp add: process_row_lookup append_variable_data_def)
    qed
  qed
qed

lemma extract_rows_lookup:
  "map_of (out_cookies (extract_rows rows flag now)) k =
     (case rows_of_key flag k rows of
        [] \<Rightarrow> None
      | r0 # rest \<Rightarrow>
          Some ((make_entry r0)\<lparr>variable_data := map row_variable_data (r0 # rest)\<rparr>))"
  by (simp add: extract_rows_def Let_def fold_lookup)

lemma extract_rows_distinct: "distinct (map fst (out_cookies (extract_rows rows flag now)))"
  by (simp add: extract_rows_def Let_def fold_distinct)

lemma process_row_key_set:
  "fst ` set (extracted_data (process_row flag row st)) =
     fst ` set (extracted_data st) \<union> (if retained flag row then {cookie_id row} else {})"
proof -
  have "set (map fst (extracted_data (process_row flag row st))) =
      set (map fst (extracted_data st)) \<union> (if retained flag row then {cookie_id row} else {})"
    by (auto simp: process_row_keys map_of_eq_None_iff)
  then show ?thesis by simp
qed

lemma fold_keys:
  "fst ` set (extracted_data (fold (process_row flag) rows st)) =
     fst ` set (extracted_data st) \<union> cookie_id ` {r \<in> set rows. retained flag r}"
proof (induction rows arbitrary: st)
  case Nil
  show ?case by simp
next
  case (Cons row rows)
  show ?case
    by (simp only: fold_simps Cons.IH process_row_key_set) auto
qed

lemma extract_rows_keys:
  "fst ` set (out_cookies (extract_rows rows flag now)) =
     cookie_id ` {r \<in> set rows. retained flag r}"
  by (simp add: extract_rows_def Let_def fold_keys)

lemma process_row_data_cong:
  "extracted_data st1 = extracted_data st2 \<Longrightarrow>
   extracted_data (process_row flag row st1) = extracted_data (process_row flag row st2)"
  by (simp add: process_row_def Let_def)

lemma fold_data_cong:
  "extracted_data st1 = extracted_data st2 \<Longrightarrow>
   extracted_data (fold (process_row flag) rows st1)
     = extracted_data (fold (process_row flag) rows st2)"
proof (induction rows arbitrary: st1 st2)
  case Nil
  then show ?case by simp
next
  case (Cons row rows)
  from Cons.prems have "extracted_data (process_row flag row st1)
      = extracted_data (process_row flag row st2)"
    by (rule process_row_data_cong)
  then show ?case by (simp only: fold_simps) (rule Cons.IH)
qed

lemma rows_of_key_append:
  "rows_of_key flag k (a @ b) = rows_of_key flag k a @ rows_of_key flag k b"
  by (simp add: rows_of_key_def)

lemma rows_of_key_single:
  "rows_of_key flag k [row] = (if retained flag row \<and> cookie_id row = k then [row] else [])"
  by (simp add: rows_of_key_def)

lemma skipped_row_out:
  assumes "\<not> retained flag row"
  shows "out_cookies (extract_rows (rs1 @ [row] @ rs2) flag now)
           = out_cookies (extract_rows (rs1 @ rs2) flag now)"
proof -
  let ?st0 = "\<lparr>extracted_data = [], matched_cookies = 0, unmatched_cookies = 0\<rparr>"
  let ?st1 = "fold (process_row flag) rs1 ?st0"
  have "extracted_data (process_row flag row ?st1) = extracted_data ?st1"
    using assms by (rule process_row_skip)
  then have "extracted_data (fold (process_row flag) rs2 (process_row flag row ?st1))
      = extracted_data (fold (process_row flag) rs2 ?st1)"
    by (rule fold_data_cong)
  then show ?thesis by (simp add: extract_rows_def Let_def)
qed

lemma lookup_key_present:
  "map_of xs k = Some e \<Longrightarrow> k \<in> fst ` set xs"
  by (metis map_of_eq_None_iff option.distinct(1))

section \<open>Determinism of the export\<close>

text \<open>
  C2, as the specification states it, fails: the returned dictionary carries
  \<open>extraction_date = datetime.now().isoformat()\<close>, so two runs over the same store at
  different times give different output.
\<close>

theorem export_depends_on_clock:
  "extract_cookies_with_consent two_crawls_db False now0
     \<noteq> extract_cookies_with_consent two_crawls_db False now1"
proof
  assume "extract_cookies_with_consent two_crawls_db False now0
     = extract_cookies_with_consent two_crawls_db False now1"
  then have "extraction_date (out_statistics (extract_cookies_with_consent two_crawls_db False now0))
     = extraction_date (out_statistics (extract_cookies_with_consent two_crawls_db False now1))"
    by simp
  then have "now0 = now1"
    by (simp add: extract_cookies_with_consent_def extract_rows_def Let_def)
  then show False by (simp add: now0_def now1_def)
qed

text \<open>
  The rest of the output is a function of the rows the query returns, and the query fixes
  their order only up to the sort key \<open>(cr.domain, c.name)\<close>. What every admissible
  order of the rows gives is derived below; first, the counters of the loop and the facts
  about admissible orders.
\<close>

lemma run_query_is_query_result: "is_query_result db (run_query db)"
  by (simp add: is_query_result_def run_query_def)

lemma query_result_set: "is_query_result db rows \<Longrightarrow> set rows = set (where_rows db)"
  by (auto simp: is_query_result_def dest: mset_eq_setD)

lemma query_result_filter_length:
  assumes "is_query_result db rows"
  shows "length (filter P rows) = size (filter_mset P (mset (where_rows db)))"
proof -
  have "length (filter P rows) = size (mset (filter P rows))"
    by (simp only: size_mset)
  also have "\<dots> = size (filter_mset P (mset rows))"
    by (simp only: mset_filter)
  also have "\<dots> = size (filter_mset P (mset (where_rows db)))"
    using assms by (simp add: is_query_result_def)
  finally show ?thesis .
qed

lemma query_result_rows_of_key:
  assumes "is_query_result db rows"
  shows "mset (rows_of_key flag k rows) = mset (rows_of_key flag k (where_rows db))"
  using assms by (simp add: is_query_result_def rows_of_key_def)

lemma query_result_sorted_key:
  assumes "is_query_result db rows"
  shows "sorted (map order_key (rows_of_key flag k rows))"
  using assms by (simp add: is_query_result_def rows_of_key_def sorted_filter)

lemma process_row_matched:
  "matched_cookies (process_row flag row st) =
     matched_cookies st
       + (if truthy (cookie_name row) \<and> truthy (purpose_category row) then 1 else 0)"
  by (simp add: process_row_def Let_def)

lemma process_row_unmatched:
  "unmatched_cookies (process_row flag row st) =
     unmatched_cookies st
       + (if truthy (cookie_name row) \<and> \<not> truthy (purpose_category row) then 1 else 0)"
  by (simp add: process_row_def Let_def)

lemma fold_matched:
  "matched_cookies (fold (process_row flag) rows st) =
     matched_cookies st
       + length (filter (\<lambda>r. truthy (cookie_name r) \<and> truthy (purpose_category r)) rows)"
  by (induction rows arbitrary: st) (simp_all add: process_row_matched)

lemma fold_unmatched:
  "unmatched_cookies (fold (process_row flag) rows st) =
     unmatched_cookies st
       + length (filter (\<lambda>r. truthy (cookie_name r) \<and> \<not> truthy (purpose_category r)) rows)"
  by (induction rows arbitrary: st) (simp_all add: process_row_unmatched)

lemma extract_rows_total:
  "total_unique_cookies (out_statistics (extract_rows rows flag now)) =
     card (cookie_id ` {r \<in> set rows. retained flag r})"
proof -
  have "total_unique_cookies (out_statistics (extract_rows rows flag now))
      = length (map fst (out_cookies (extract_rows rows flag now)))"
    by (simp add: extract_rows_def Let_def)
  also have "\<dots> = card (set (map fst (out_cookies (extract_rows rows flag now))))"
    by (simp only: distinct_card [OF extract_rows_distinct])
  also have "\<dots> = card (fst ` set (out_cookies (extract_rows rows flag now)))"
    by simp
  finally show ?thesis by (simp only: extract_rows_keys)
qed

lemma extract_rows_statistics:
  "out_statistics (extract_rows rows flag now) =
     \<lparr>total_unique_cookies = card (cookie_id ` {r \<in> set rows. retained flag r}),
      stat_matched_cookies =
        length (filter (\<lambda>r. truthy (cookie_name r) \<and> truthy (purpose_category r)) rows),
      stat_unmatched_cookies =
        length (filter (\<lambda>r. truthy (cookie_name r) \<and> \<not> truthy (purpose_category r)) rows),
      extraction_date = now\<rparr>"
proof -
  have "total_unique_cookies (out_statistics (extract_rows rows flag now)) =
     card (cookie_id ` {r \<in> set rows. retained flag r})"
    by (rule extract_rows_total)
  moreover have "stat_matched_cookies (out_statistics (extract_rows rows flag now)) =
     length (filter (\<lambda>r. truthy (cookie_name r) \<and> truthy (purpose_category r)) rows)"
    by (simp add: extract_rows_def Let_def fold_matched)
  moreover have "stat_unmatched_cookies (out_statistics (extract_rows rows flag now)) =
     length (filter (\<lambda>r. truthy (cookie_name r) \<and> \<not> truthy (purpose_category r)) rows)"
    by (simp add: extract_rows_def Let_def fold_unmatched)
  moreover have "extraction_date (out_statistics (extract_rows rows flag now)) = now"
    by (simp add: extract_rows_def Let_def)
  ultimately show ?thesis by simp
qed

lemma extract_rows_clock:
  "(extract_rows rows flag t1 = extract_rows rows flag t2) = (t1 = t2)"
  by (auto simp: extract_rows_def Let_def)

lemma extract_rows_entry:
  assumes qr: "is_query_result db rows"
    and e: "map_of (out_cookies (extract_rows rows flag now)) k = Some e"
  shows "mset (variable_data e)
           = image_mset row_variable_data (mset (rows_of_key flag k (where_rows db)))
         \<and> (\<exists>r0 \<in> set (rows_of_key flag k (where_rows db)).
               e\<lparr>variable_data := []\<rparr> = (make_entry r0)\<lparr>variable_data := []\<rparr>
               \<and> list_all (\<lambda>r. order_key r0 \<le> order_key r)
                   (rows_of_key flag k (where_rows db)))"
proof -
  from e obtain r0 rest where rk: "rows_of_key flag k rows = r0 # rest"
    and ee: "e = (make_entry r0)\<lparr>variable_data := map row_variable_data (r0 # rest)\<rparr>"
    by (auto simp: extract_rows_lookup split: list.splits)
  have m: "mset (rows_of_key flag k rows) = mset (rows_of_key flag k (where_rows db))"
    using qr by (rule query_result_rows_of_key)
  have s: "set (rows_of_key flag k rows) = set (rows_of_key flag k (where_rows db))"
    using m by (rule mset_eq_setD)
  have "mset (variable_data e) = image_mset row_variable_data (mset (rows_of_key flag k rows))"
    by (simp add: ee rk)
  then have c1: "mset (variable_data e)
      = image_mset row_variable_data (mset (rows_of_key flag k (where_rows db)))"
    by (simp only: m)
  have r0_in: "r0 \<in> set (rows_of_key flag k (where_rows db))"
    using s rk by auto
  have "sorted (map order_key (r0 # rest))"
    using query_result_sorted_key [OF qr, of flag k] by (simp only: rk)
  then have "\<forall>r \<in> set (r0 # rest). order_key r0 \<le> order_key r"
    by auto
  then have "\<forall>r \<in> set (rows_of_key flag k rows). order_key r0 \<le> order_key r"
    by (simp only: rk)
  then have least: "list_all (\<lambda>r. order_key r0 \<le> order_key r)
      (rows_of_key flag k (where_rows db))"
    by (simp only: s list_all_iff)
  have "e\<lparr>variable_data := []\<rparr> = (make_entry r0)\<lparr>variable_data := []\<rparr>"
    by (simp add: ee)
  with r0_in least c1 show ?thesis by blast
qed

lemma extract_rows_entry_exists:
  assumes qr1: "is_query_result db rows1" and qr2: "is_query_result db rows2"
    and e: "map_of (out_cookies (extract_rows rows1 flag t1)) k = Some e1"
  shows "\<exists>e2. map_of (out_cookies (extract_rows rows2 flag t2)) k = Some e2
            \<and> mset (variable_data e2) = mset (variable_data e1)"
proof -
  have "k \<in> fst ` set (out_cookies (extract_rows rows1 flag t1))"
    using e by (rule lookup_key_present)
  then have "k \<in> cookie_id ` {r \<in> set (where_rows db). retained flag r}"
    by (simp only: extract_rows_keys query_result_set [OF qr1])
  then have "k \<in> fst ` set (out_cookies (extract_rows rows2 flag t2))"
    by (simp only: extract_rows_keys query_result_set [OF qr2])
  then obtain e2 where e2: "map_of (out_cookies (extract_rows rows2 flag t2)) k = Some e2"
    by (metis map_of_eq_None_iff not_Some_eq)
  have "mset (variable_data e2)
      = image_mset row_variable_data (mset (rows_of_key flag k (where_rows db)))"
    using extract_rows_entry [OF qr2 e2] by (rule conjunct1)
  moreover have "mset (variable_data e1)
      = image_mset row_variable_data (mset (rows_of_key flag k (where_rows db)))"
    using extract_rows_entry [OF qr1 e] by (rule conjunct1)
  ultimately show ?thesis using e2 by simp
qed

text \<open>
  The order of rows with equal sort keys shows in the output. In \<open>two_paths_db\<close> one crawl
  stored the cookie \<open>sid\<close> under the paths \<open>/\<close> and \<open>/cart\<close>; the two joined rows have the same
  sort key, both orders are results of the query, and the exported entry takes its
  \<open>path\<close> from whichever row comes first.
\<close>

lemma two_paths_where_rows: "where_rows two_paths_db = [root_path_row, cart_path_row]"
  by code_simp

lemma two_paths_order_key: "order_key cart_path_row = order_key root_path_row"
  by (simp add: order_key_def cart_path_row_def root_path_row_def)

lemma two_paths_results:
  "is_query_result two_paths_db [root_path_row, cart_path_row]
   \<and> is_query_result two_paths_db [cart_path_row, root_path_row]"
  by (simp add: is_query_result_def two_paths_where_rows two_paths_order_key)

lemma export_depends_on_tie_order:
  "is_query_result two_paths_db [root_path_row, cart_path_row]
   \<and> is_query_result two_paths_db [cart_path_row, root_path_row]
   \<and> map_option ent_path
       (map_of (out_cookies (extract_rows [root_path_row, cart_path_row] False now0))
          ''shop.example_sid'') = Some ''/''
   \<and> map_option ent_path
       (map_of (out_cookies (extract_rows [cart_path_row, root_path_row] False now0))
          ''shop.example_sid'') = Some ''/cart''
   \<and> out_cookies (extract_rows [root_path_row, cart_path_row] False now0)
       \<noteq> out_cookies (extract_rows [cart_path_row, root_path_row] False now0)"
proof -
  have a: "map_option ent_path
       (map_of (out_cookies (extract_rows [root_path_row, cart_path_row] False now0))
          ''shop.example_sid'') = Some ''/''"
    by code_simp
  have b: "map_option ent_path
       (map_of (out_cookies (extract_rows [cart_path_row, root_path_row] False now0))
          ''shop.example_sid'') = Some ''/cart''"
    by code_simp
  have "out_cookies (extract_rows [root_path_row, cart_path_row] False now0)
       \<noteq> out_cookies (extract_rows [cart_path_row, root_path_row] False now0)"
  proof
    assume "out_cookies (extract_rows [root_path_row, cart_path_row] False now0)
       = out_cookies (extract_rows [cart_path_row, root_path_row] False now0)"
    with a b show False by simp
  qed
  with a b two_paths_results show ?thesis by (intro conjI) simp_all
qed

lemma two_paths_entry:
  "map_of (out_cookies (extract_rows [root_path_row, cart_path_row] False now0))
     ''shop.example_sid''
   = Some ((make_entry root_path_row)
            \<lparr>variable_data := map row_variable_data [root_path_row, cart_path_row]\<rparr>)"
  by code_simp

text \<open>
  C2, amended. Two runs of the extraction over the same store do not always give identical
  output: \<open>extraction_date\<close> is the wall-clock time of the run, and the order of the rows
  with equal \<open>(cr.domain, c.name)\<close> is left to the database engine. For a fixed store and
  flag, and for any two orders \<open>rows1\<close>, \<open>rows2\<close> in which the query may return its rows
  (the order \<open>run_query\<close> that the function \<open>extract_cookies_with_consent\<close> is modelled with
  is one of them), and any two clock values:

    \<^item> the set of keys of \<open>cookies\<close> is the set of cookie ids of the retained rows of the
      store, the same in both runs;
    \<^item> the entry of a key has as \<open>variable_data\<close> one element per retained row of that key,
      the same elements in both runs up to their order, and takes its other fields from
      a retained row of that key whose sort key is least;
    \<^item> \<open>total_unique_cookies\<close> is the number of keys, \<open>matched_cookies\<close> the number of
      rows with a cookie name and a purpose category, \<open>unmatched_cookies\<close> the number of
      rows with a cookie name and no purpose category, so the statistics of the two runs
      differ in \<open>extraction_date\<close> only;
    \<^item> over the same rows, two runs give identical output exactly when they read the same
      clock value.
\<close>

theorem export_determined_up_to_ties_and_date:
  assumes qr1: "is_query_result db rows1" and qr2: "is_query_result db rows2"
  shows "is_query_result db (run_query db)
     \<and> extract_cookies_with_consent db flag t1 = extract_rows (run_query db) flag t1
     \<and> fst ` set (out_cookies (extract_rows rows1 flag t1))
         = cookie_id ` {r \<in> set (where_rows db). retained flag r}
     \<and> fst ` set (out_cookies (extract_rows rows2 flag t2))
         = fst ` set (out_cookies (extract_rows rows1 flag t1))
     \<and> (\<forall>k e1. map_of (out_cookies (extract_rows rows1 flag t1)) k = Some e1 \<longrightarrow>
           mset (variable_data e1)
             = image_mset row_variable_data (mset (rows_of_key flag k (where_rows db)))
           \<and> (\<exists>r0 \<in> set (rows_of_key flag k (where_rows db)).
                 e1\<lparr>variable_data := []\<rparr> = (make_entry r0)\<lparr>variable_data := []\<rparr>
                 \<and> list_all (\<lambda>r. order_key r0 \<le> order_key r)
                     (rows_of_key flag k (where_rows db)))
           \<and> (\<exists>e2. map_of (out_cookies (extract_rows rows2 flag t2)) k = Some e2
                     \<and> mset (variable_data e2) = mset (variable_data e1)))
     \<and> out_statistics (extract_rows rows1 flag t1) =
           \<lparr>total_unique_cookies = card (cookie_id ` {r \<in> set (where_rows db). retained flag r}),
            stat_matched_cookies =
              size (filter_mset (\<lambda>r. truthy (cookie_name r) \<and> truthy (purpose_category r))
                      (mset (where_rows db))),
            stat_unmatched_cookies =
              size (filter_mset (\<lambda>r. truthy (cookie_name r) \<and> \<not> truthy (purpose_category r))
                      (mset (where_rows db))),
            extraction_date = t1\<rparr>
     \<and> out_statistics (extract_rows rows2 flag t2)
         = (out_statistics (extract_rows rows1 flag t1))\<lparr>extraction_date := t2\<rparr>
     \<and> ((extract_rows rows1 flag t1 = extract_rows rows1 flag t2) = (t1 = t2))"
proof -
  have c1: "is_query_result db (run_query db)"
    by (rule run_query_is_query_result)
  have c2: "extract_cookies_with_consent db flag t1 = extract_rows (run_query db) flag t1"
    by (simp only: extract_cookies_with_consent_def)
  have keys: "fst ` set (out_cookies (extract_rows rows flag t))
         = cookie_id ` {r \<in> set (where_rows db). retained flag r}"
    if "is_query_result db rows" for rows t
    by (simp only: extract_rows_keys query_result_set [OF that])
  have c3: "fst ` set (out_cookies (extract_rows rows1 flag t1))
         = cookie_id ` {r \<in> set (where_rows db). retained flag r}"
    using qr1 by (rule keys)
  have c4: "fst ` set (out_cookies (extract_rows rows2 flag t2))
         = fst ` set (out_cookies (extract_rows rows1 flag t1))"
    by (simp only: keys [OF qr1] keys [OF qr2])
  have c5: "\<forall>k e1. map_of (out_cookies (extract_rows rows1 flag t1)) k = Some e1 \<longrightarrow>
           mset (variable_data e1)
             = image_mset row_variable_data (mset (rows_of_key flag k (where_rows db)))
           \<and> (\<exists>r0 \<in> set (rows_of_key flag k (where_rows db)).
                 e1\<lparr>variable_data := []\<rparr> = (make_entry r0)\<lparr>variable_data := []\<rparr>
                 \<and> list_all (\<lambda>r. order_key r0 \<le> order_key r)
                     (rows_of_key flag k (where_rows db)))
           \<and> (\<exists>e2. map_of (out_cookies (extract_rows rows2 flag t2)) k = Some e2
                     \<and> mset (variable_data e2) = mset (variable_data e1))"
  proof (intro allI impI)
    fix k e1
    assume e: "map_of (out_cookies (extract_rows rows1 flag t1)) k = Some e1"
    note a = extract_rows_entry [OF qr1 e]
    note b = extract_rows_entry_exists [OF qr1 qr2 e, of t2]
    from a b show "mset (variable_data e1)
             = image_mset row_variable_data (mset (rows_of_key flag k (where_rows db)))
           \<and> (\<exists>r0 \<in> set (rows_of_key flag k (where_rows db)).
                 e1\<lparr>variable_data := []\<rparr> = (make_entry r0)\<lparr>variable_data := []\<rparr>
                 \<and> list_all (\<lambda>r. order_key r0 \<le> order_key r)
                     (rows_of_key flag k (where_rows db)))
           \<and> (\<exists>e2. map_of (out_cookies (extract_rows rows2 flag t2)) k = Some e2
                     \<and> mset (variable_data e2) = mset (variable_data e1))"
      by (intro conjI) (rule conjunct1, assumption, rule conjunct2, assumption, assumption)
  qed
  have stats: "out_statistics (extract_rows rows flag t) =
           \<lparr>total_unique_cookies = card (cookie_id ` {r \<in> set (where_rows db). retained flag r}),
            stat_matched_cookies =
              size (filter_mset (\<lambda>r. truthy (cookie_name r) \<and> truthy (purpose_category r))
                      (mset (where_rows db))),
            stat_unmatched_cookies =
              size (filter_mset (\<lambda>r. truthy (cookie_name r) \<and> \<not> truthy (purpose_category r))
                      (mset (where_rows db))),
            extraction_date = t\<rparr>"
    if "is_query_result db rows" for rows t
    by (simp only: extract_rows_statistics query_result_set [OF that]
          query_result_filter_length [OF that])
  have c6: "out_statistics (extract_rows rows1 flag t1) =
           \<lparr>total_unique_cookies = card (cookie_id ` {r \<in> set (where_rows db). retained flag r}),
            stat_matched_cookies =
              size (filter_mset (\<lambda>r. truthy (cookie_name r) \<and> truthy (purpose_category r))
                      (mset (where_rows db))),
            stat_unmatched_cookies =
              size (filter_mset (\<lambda>r. truthy (cookie_name r) \<and> \<not> truthy (purpose_category r))
                      (mset (where_rows db))),
            extraction_date = t1\<rparr>"
    using qr1 by (rule stats)
  have c7: "out_statistics (extract_rows rows2 flag t2)
         = (out_statistics (extract_rows rows1 flag t1))\<lparr>extraction_date := t2\<rparr>"
    by (simp add: stats [OF qr1] stats [OF qr2])
  have c8: "(extract_rows rows1 flag t1 = extract_rows rows1 flag t2) = (t1 = t2)"
    by (rule extract_rows_clock)
  from c1 c2 c3 c4 c5 c6 c7 c8 show ?thesis
    by (intro conjI)
qed

theorem export_determined_up_to_ties_and_date_witness:
  "is_query_result two_paths_db [root_path_row, cart_path_row]
   \<and> is_query_result two_paths_db [cart_path_row, root_path_row]
   \<and> fst ` set (out_cookies (extract_rows [cart_path_row, root_path_row] False now1))
       = fst ` set (out_cookies (extract_rows [root_path_row, cart_path_row] False now0))
   \<and> map_option (\<lambda>e. mset (variable_data e))
       (map_of (out_cookies (extract_rows [cart_path_row, root_path_row] False now1))
          ''shop.example_sid'')
       = Some (mset (map row_variable_data [root_path_row, cart_path_row]))
   \<and> out_statistics (extract_rows [cart_path_row, root_path_row] False now1)
       = (out_statistics (extract_rows [root_path_row, cart_path_row] False now0))
           \<lparr>extraction_date := now1\<rparr>
   \<and> (extract_rows [root_path_row, cart_path_row] False now0
        = extract_rows [root_path_row, cart_path_row] False now1) = (now0 = now1)"
proof -
  have r1: "is_query_result two_paths_db [root_path_row, cart_path_row]"
    using two_paths_results by (rule conjunct1)
  have r2: "is_query_result two_paths_db [cart_path_row, root_path_row]"
    using two_paths_results by (rule conjunct2)
  note t = export_determined_up_to_ties_and_date [OF r1 r2, of False now0 now1]
  have keys: "fst ` set (out_cookies (extract_rows [cart_path_row, root_path_row] False now1))
       = fst ` set (out_cookies (extract_rows [root_path_row, cart_path_row] False now0))"
    using t by (elim conjE)
  have per_key: "\<forall>k e1.
       map_of (out_cookies (extract_rows [root_path_row, cart_path_row] False now0)) k = Some e1
       \<longrightarrow> (\<exists>e2. map_of (out_cookies (extract_rows [cart_path_row, root_path_row] False now1)) k
                   = Some e2
                 \<and> mset (variable_data e2) = mset (variable_data e1))"
    using t by (elim conjE) blast
  from per_key two_paths_entry
  obtain e2 where e2: "map_of (out_cookies (extract_rows [cart_path_row, root_path_row] False now1))
        ''shop.example_sid'' = Some e2"
    and m: "mset (variable_data e2)
        = mset (variable_data ((make_entry root_path_row)
            \<lparr>variable_data := map row_variable_data [root_path_row, cart_path_row]\<rparr>))"
    by blast
  have entry: "map_option (\<lambda>e. mset (variable_data e))
       (map_of (out_cookies (extract_rows [cart_path_row, root_path_row] False now1))
          ''shop.example_sid'')
       = Some (mset (map row_variable_data [root_path_row, cart_path_row]))"
    using m by (simp add: e2)
  have stats: "out_statistics (extract_rows [cart_path_row, root_path_row] False now1)
       = (out_statistics (extract_rows [root_path_row, cart_path_row] False now0))
           \<lparr>extraction_date := now1\<rparr>"
    using t by (elim conjE)
  have clock: "(extract_rows [root_path_row, cart_path_row] False now0
        = extract_rows [root_path_row, cart_path_row] False now1) = (now0 = now1)"
    using t by (elim conjE)
  from r1 r2 keys entry stats clock show ?thesis
    by (intro conjI)
qed

section \<open>Length of \<open>variable_data\<close>\<close>

text \<open>
  C3, as the specification states it, fails: \<open>variable_data\<close> gets one element per retained
  row of the query, not one per crawl. One crawl that stored the cookie \<open>sid\<close> of
  \<open>shop.example\<close> under two paths gives two joined rows, and the entry has two elements
  although the pair was observed in one crawl.
\<close>

theorem two_rows_one_crawl:
  "map_option (\<lambda>e. length (variable_data e))
       (map_of (out_cookies (extract_cookies_with_consent two_paths_db False now0))
          ''shop.example_sid'') = Some 2
   \<and> crawls_observing two_paths_db ''sid'' ''shop.example'' = 1"
  by code_simp

text \<open>
  C3, amended. For every entry of the export, the length of its \<open>variable_data\<close> list equals
  the number of retained rows of the query result with the entry's key (a row is
  retained when its cookie name is non-empty and it has consent data or unmatched
  cookies are included); the keys of the export are distinct; and one more retained row
  with a key that is already in the export grows that entry's \<open>variable_data\<close> by exactly 1
  and leaves the set of keys unchanged.
\<close>

theorem variable_data_counts_rows:
  "(map_of (out_cookies (extract_rows rows flag now)) k = Some e
      \<longrightarrow> length (variable_data e) = length (rows_of_key flag k rows))
   \<and> distinct (map fst (out_cookies (extract_rows rows flag now)))
   \<and> (retained flag row
        \<and> map_of (out_cookies (extract_rows (rs1 @ rs2) flag now)) (cookie_id row) = Some e1
      \<longrightarrow> (\<exists>e2. map_of (out_cookies (extract_rows (rs1 @ [row] @ rs2) flag now)) (cookie_id row)
                  = Some e2
                \<and> length (variable_data e2) = length (variable_data e1) + 1)
          \<and> fst ` set (out_cookies (extract_rows (rs1 @ [row] @ rs2) flag now))
              = fst ` set (out_cookies (extract_rows (rs1 @ rs2) flag now)))"
proof -
  have a: "map_of (out_cookies (extract_rows rows flag now)) k = Some e
      \<longrightarrow> length (variable_data e) = length (rows_of_key flag k rows)"
    by (auto simp: extract_rows_lookup split: list.splits)
  have b: "distinct (map fst (out_cookies (extract_rows rows flag now)))"
    by (rule extract_rows_distinct)
  have c: "retained flag row
        \<and> map_of (out_cookies (extract_rows (rs1 @ rs2) flag now)) (cookie_id row) = Some e1
      \<longrightarrow> (\<exists>e2. map_of (out_cookies (extract_rows (rs1 @ [row] @ rs2) flag now)) (cookie_id row)
                  = Some e2
                \<and> length (variable_data e2) = length (variable_data e1) + 1)
          \<and> fst ` set (out_cookies (extract_rows (rs1 @ [row] @ rs2) flag now))
              = fst ` set (out_cookies (extract_rows (rs1 @ rs2) flag now))"
  proof
    assume h: "retained flag row
        \<and> map_of (out_cookies (extract_rows (rs1 @ rs2) flag now)) (cookie_id row) = Some e1"
    then have r: "retained flag row"
      and l: "map_of (out_cookies (extract_rows (rs1 @ rs2) flag now)) (cookie_id row) = Some e1"
      by simp_all
    let ?k = "cookie_id row"
    have n1: "length (variable_data e1) = length (rows_of_key flag ?k (rs1 @ rs2))"
      using l by (auto simp: extract_rows_lookup split: list.splits)
    have split3: "rows_of_key flag ?k (rs1 @ [row] @ rs2)
        = rows_of_key flag ?k rs1 @ [row] @ rows_of_key flag ?k rs2"
      using r by (simp add: rows_of_key_def)
    obtain e2 where l2: "map_of (out_cookies (extract_rows (rs1 @ [row] @ rs2) flag now)) ?k
        = Some e2"
      using split3 by (cases "rows_of_key flag ?k rs1") (simp_all add: extract_rows_lookup)
    then have n2: "length (variable_data e2) = length (rows_of_key flag ?k (rs1 @ [row] @ rs2))"
      by (auto simp: extract_rows_lookup split: list.splits)
    have len: "length (variable_data e2) = length (variable_data e1) + 1"
      unfolding n1 n2 split3 by (simp add: rows_of_key_append)
    have "?k \<in> fst ` set (out_cookies (extract_rows (rs1 @ rs2) flag now))"
      using l by (rule lookup_key_present)
    then have keys: "fst ` set (out_cookies (extract_rows (rs1 @ [row] @ rs2) flag now))
              = fst ` set (out_cookies (extract_rows (rs1 @ rs2) flag now))"
      using r unfolding extract_rows_keys by auto
    from l2 len keys show "(\<exists>e2. map_of (out_cookies (extract_rows (rs1 @ [row] @ rs2) flag now))
                  (cookie_id row) = Some e2
                \<and> length (variable_data e2) = length (variable_data e1) + 1)
          \<and> fst ` set (out_cookies (extract_rows (rs1 @ [row] @ rs2) flag now))
              = fst ` set (out_cookies (extract_rows (rs1 @ rs2) flag now))"
      by blast
  qed
  from a b c show ?thesis by blast
qed

theorem variable_data_counts_rows_witness:
  "retained True unmatched_row
   \<and> map_of (out_cookies (extract_rows ([matched_row] @ []) True now0)) (cookie_id unmatched_row)
       = Some (make_entry matched_row)
   \<and> length (variable_data (make_entry matched_row))
       = length (rows_of_key True (cookie_id unmatched_row) ([matched_row] @ []))
   \<and> (\<exists>e2. map_of (out_cookies (extract_rows ([matched_row] @ [unmatched_row] @ []) True now0))
               (cookie_id unmatched_row) = Some e2
            \<and> length (variable_data e2) = length (variable_data (make_entry matched_row)) + 1)
   \<and> fst ` set (out_cookies (extract_rows ([matched_row] @ [unmatched_row] @ []) True now0))
       = fst ` set (out_cookies (extract_rows ([matched_row] @ []) True now0))"
proof -
  have h1: "retained True unmatched_row"
    by code_simp
  have h2: "map_of (out_cookies (extract_rows ([matched_row] @ []) True now0))
      (cookie_id unmatched_row) = Some (make_entry matched_row)"
    by code_simp
  note t = variable_data_counts_rows
    [where rows = "[matched_row] @ []" and flag = True and now = now0
       and k = "cookie_id unmatched_row" and e = "make_entry matched_row"
       and row = unmatched_row and ?rs1.0 = "[matched_row]" and ?rs2.0 = "[]"
       and ?e1.0 = "make_entry matched_row"]
  have c1: "length (variable_data (make_entry matched_row))
       = length (rows_of_key True (cookie_id unmatched_row) ([matched_row] @ []))"
    using t [THEN conjunct1] h2 by (rule mp)
  have c2: "(\<exists>e2. map_of (out_cookies
          (extract_rows ([matched_row] @ [unmatched_row] @ []) True now0))
               (cookie_id unmatched_row) = Some e2
            \<and> length (variable_data e2) = length (variable_data (make_entry matched_row)) + 1)
      \<and> fst ` set (out_cookies (extract_rows ([matched_row] @ [unmatched_row] @ []) True now0))
       = fst ` set (out_cookies (extract_rows ([matched_row] @ []) True now0))"
    using t [THEN conjunct2, THEN conjunct2] conjI [OF h1 h2] by (rule mp)
  show ?thesis
    using h1 h2 c1 c2 [THEN conjunct1] c2 [THEN conjunct2] by (intro conjI)
qed



section \<open>Unmatched policy\<close>

text \<open>
  C8, as the specification states it, fails in its second half: with the flag set, an
  instance without a declaration is appended to the entry of its key, and that entry
  keeps the label of the first row with the key. In \<open>two_crawls_db\<close> the instance of the
  second crawl has no declaration, and the flagged run puts it into the only entry,
  \<open>cdn.example_sid\<close>, whose label is 0, not -1.
\<close>

theorem unmatched_instance_gets_first_label:
  "map purpose_category (run_query two_crawls_db) = [Some ''Necessary'', None]
   \<and> map_option label
        (map_of (out_cookies (extract_cookies_with_consent two_crawls_db True now0))
           ''cdn.example_sid'') = Some 0
   \<and> map_option (\<lambda>e. map var_value (variable_data e))
        (map_of (out_cookies (extract_cookies_with_consent two_crawls_db True now0))
           ''cdn.example_sid'') = Some [''a'', ''b'']
   \<and> map fst (out_cookies (extract_cookies_with_consent two_crawls_db True now0))
        = [''cdn.example_sid'']"
  by code_simp

text \<open>
  C8, amended. For every cookie instance (row of the query) with no joined consent
  declaration: the default run excludes it, the export is the same as without the row.
  The run with the include-unmatched flag set includes it when its cookie name is
  non-empty: its \<open>variable_data\<close> element is in the entry of its key; that entry has label
  -1 when no earlier retained row has the same key, and otherwise the label of the
  first row with the key. An instance with an empty cookie name is skipped in both runs.
\<close>

theorem unmatched_policy:
  assumes "purpose_category row = None"
  shows "out_cookies (extract_rows (rs1 @ [row] @ rs2) False now)
           = out_cookies (extract_rows (rs1 @ rs2) False now)
         \<and> (truthy (cookie_name row) \<longrightarrow>
              (\<exists>e. map_of (out_cookies (extract_rows (rs1 @ [row] @ rs2) True now)) (cookie_id row)
                      = Some e
                 \<and> row_variable_data row \<in> set (variable_data e)
                 \<and> (rows_of_key True (cookie_id row) rs1 = [] \<longrightarrow> label e = - 1)
                 \<and> (\<forall>r0 rest. rows_of_key True (cookie_id row) rs1 = r0 # rest
                       \<longrightarrow> label e = map_purpose_category (purpose_category r0))))
         \<and> (\<not> truthy (cookie_name row) \<longrightarrow>
              out_cookies (extract_rows (rs1 @ [row] @ rs2) True now)
                = out_cookies (extract_rows (rs1 @ rs2) True now))"
proof -
  have nr: "\<not> retained False row"
    using assms by (simp add: retained_def truthy_def)
  have a: "out_cookies (extract_rows (rs1 @ [row] @ rs2) False now)
           = out_cookies (extract_rows (rs1 @ rs2) False now)"
    using nr by (rule skipped_row_out)
  have b: "truthy (cookie_name row) \<longrightarrow>
              (\<exists>e. map_of (out_cookies (extract_rows (rs1 @ [row] @ rs2) True now)) (cookie_id row)
                      = Some e
                 \<and> row_variable_data row \<in> set (variable_data e)
                 \<and> (rows_of_key True (cookie_id row) rs1 = [] \<longrightarrow> label e = - 1)
                 \<and> (\<forall>r0 rest. rows_of_key True (cookie_id row) rs1 = r0 # rest
                       \<longrightarrow> label e = map_purpose_category (purpose_category r0)))"
  proof
    assume t: "truthy (cookie_name row)"
    then have r: "retained True row" by (simp add: retained_def)
    let ?k = "cookie_id row"
    have split3: "rows_of_key True ?k (rs1 @ [row] @ rs2)
        = rows_of_key True ?k rs1 @ row # rows_of_key True ?k rs2"
      using r by (simp add: rows_of_key_def)
    have lbl: "label (make_entry row) = - 1"
      using assms by (simp add: make_entry_def map_purpose_category_def)
    show "\<exists>e. map_of (out_cookies (extract_rows (rs1 @ [row] @ rs2) True now)) (cookie_id row)
                      = Some e
                 \<and> row_variable_data row \<in> set (variable_data e)
                 \<and> (rows_of_key True (cookie_id row) rs1 = [] \<longrightarrow> label e = - 1)
                 \<and> (\<forall>r0 rest. rows_of_key True (cookie_id row) rs1 = r0 # rest
                       \<longrightarrow> label e = map_purpose_category (purpose_category r0))"
    proof (cases "rows_of_key True ?k rs1")
      case Nil
      then show ?thesis
        unfolding extract_rows_lookup split3 using lbl by simp
    next
      case (Cons r0 rest)
      then show ?thesis
        unfolding extract_rows_lookup split3 by (simp add: make_entry_def)
    qed
  qed
  have c: "\<not> truthy (cookie_name row) \<longrightarrow>
              out_cookies (extract_rows (rs1 @ [row] @ rs2) True now)
                = out_cookies (extract_rows (rs1 @ rs2) True now)"
  proof
    assume "\<not> truthy (cookie_name row)"
    then have "\<not> retained True row" by (simp add: retained_def)
    then show "out_cookies (extract_rows (rs1 @ [row] @ rs2) True now)
                = out_cookies (extract_rows (rs1 @ rs2) True now)"
      by (rule skipped_row_out)
  qed
  from a b c show ?thesis by (intro conjI)
qed


theorem unmatched_policy_witness:
  "purpose_category unmatched_row = None
   \<and> out_cookies (extract_rows ([matched_row] @ [unmatched_row] @ []) False now0)
       = out_cookies (extract_rows ([matched_row] @ []) False now0)
   \<and> truthy (cookie_name unmatched_row)
   \<and> rows_of_key True (cookie_id unmatched_row) [] = []
   \<and> (\<exists>e. map_of (out_cookies (extract_rows ([] @ [unmatched_row] @ []) True now0))
              (cookie_id unmatched_row) = Some e
           \<and> row_variable_data unmatched_row \<in> set (variable_data e)
           \<and> label e = - 1)"
proof -
  have h: "purpose_category unmatched_row = None"
    by (simp add: unmatched_row_def)
  have tr: "truthy (cookie_name unmatched_row)"
    by code_simp
  have em: "rows_of_key True (cookie_id unmatched_row) [] = []"
    by (simp add: rows_of_key_def)
  note t1 = unmatched_policy [OF h, of "[matched_row]" "[]" now0]
  note t2 = unmatched_policy [OF h, of "[]" "[]" now0]
  from t2 [THEN conjunct2, THEN conjunct1] tr
  obtain e where e: "map_of (out_cookies (extract_rows ([] @ [unmatched_row] @ []) True now0))
        (cookie_id unmatched_row) = Some e"
    and v: "row_variable_data unmatched_row \<in> set (variable_data e)"
    and l: "rows_of_key True (cookie_id unmatched_row) [] = [] \<longrightarrow> label e = - 1"
    by blast
  from l em have "label e = - 1" by (rule mp)
  with e v have ex: "\<exists>e. map_of (out_cookies (extract_rows ([] @ [unmatched_row] @ []) True now0))
              (cookie_id unmatched_row) = Some e
           \<and> row_variable_data unmatched_row \<in> set (variable_data e)
           \<and> label e = - 1"
    by blast
  show ?thesis
    using h t1 [THEN conjunct1] tr em ex by (intro conjI)
qed

section \<open>Later rows of an existing key\<close>



section \<open>What a crawl writes to the store\<close>

lemma insert_consent_cookies: "tbl_cookies (insert_consent i c db) = tbl_cookies db"
  by (simp add: insert_consent_def)

lemma fold_insert_consent_cookies:
  "tbl_cookies (fold (insert_consent i) cs db) = tbl_cookies db"
  by (induction cs arbitrary: db) (simp_all add: insert_consent_cookies)

lemma insert_consent_crawl_results:
  "tbl_crawl_results (insert_consent i c db) = tbl_crawl_results db"
  by (simp add: insert_consent_def)

lemma fold_insert_consent_crawl_results:
  "tbl_crawl_results (fold (insert_consent i) cs db) = tbl_crawl_results db"
  by (induction cs arbitrary: db) (simp_all add: insert_consent_crawl_results)

lemma fold_insert_consent_nil_data:
  "tbl_consent_data (fold (insert_consent i) [] db) = tbl_consent_data db"
  by simp

lemma save_crawl_result_cookies:
  "tbl_cookies (snd (save_crawl_result now result db)) = tbl_cookies db"
  by (simp add: save_crawl_result_def Let_def fold_insert_consent_cookies)

lemma save_crawl_result_crawl_results:
  "tbl_crawl_results (snd (save_crawl_result now result db)) =
     tbl_crawl_results db @
       [\<lparr>cr_id = Suc (seq_crawl_results db), cr_domain = domain result, cr_timestamp = now,
         cr_success = success result, cr_cmp_type = Some (cmp_type result),
         cr_cookies_collected = cookies_collected result,
         cr_error_message = error_message result\<rparr>]"
  by (simp add: save_crawl_result_def Let_def fold_insert_consent_crawl_results)

lemma crawl_loop_cookies:
  "tbl_cookies (snd (crawl_loop web clock i domains (results, db))) = tbl_cookies db"
  by (induction domains arbitrary: i results db)
     (simp_all add: Let_def save_crawl_result_cookies)

lemma crawl_domains_never_insert_cookies:
  "tbl_cookies (snd (crawl_domains web clock domains db)) = tbl_cookies db"
  by (simp add: crawl_domains_def crawl_loop_cookies)

lemma crawl_loop_one_record_each:
  "length (tbl_crawl_results (snd (crawl_loop web clock i domains (results, db))))
     = length (tbl_crawl_results db) + length domains"
  by (induction domains arbitrary: i results db)
     (simp_all add: Let_def save_crawl_result_crawl_results)

lemma crawl_domains_one_record_each:
  "length (tbl_crawl_results (snd (crawl_domains web clock domains db)))
     = length (tbl_crawl_results db) + length domains"
  by (simp add: crawl_domains_def crawl_loop_one_record_each)

lemma fold_insert_consent_data:
  "\<exists>new. tbl_consent_data (fold (insert_consent i) cs db) = tbl_consent_data db @ new
      \<and> map cd_crawl_id new = replicate (length cs) (Some i)
      \<and> map cd_cookie_name new = map cs_name cs"
proof (induction cs arbitrary: db)
  case Nil
  show ?case by simp
next
  case (Cons c cs)
  obtain new where n: "tbl_consent_data (fold (insert_consent i) cs (insert_consent i c db))
        = tbl_consent_data (insert_consent i c db) @ new"
    and ids: "map cd_crawl_id new = replicate (length cs) (Some i)"
    and names: "map cd_cookie_name new = map cs_name cs"
    using Cons.IH [of "insert_consent i c db"] by blast
  obtain row where r: "tbl_consent_data (insert_consent i c db) = tbl_consent_data db @ [row]"
    and rid: "cd_crawl_id row = Some i" and rname: "cd_cookie_name row = cs_name c"
    by (simp add: insert_consent_def)
  have "tbl_consent_data (fold (insert_consent i) (c # cs) db) = tbl_consent_data db @ (row # new)"
    using n r by simp
  moreover have "map cd_crawl_id (row # new) = replicate (length (c # cs)) (Some i)"
    using ids rid by simp
  moreover have "map cd_cookie_name (row # new) = map cs_name (c # cs)"
    using names rname by simp
  ultimately show ?case by blast
qed

lemma consent_rows_reference_crawl_id:
  "\<exists>new. tbl_consent_data (snd (save_crawl_result now result db)) = tbl_consent_data db @ new
      \<and> map cd_crawl_id new
          = replicate (length (consent_data result)) (Some (fst (save_crawl_result now result db)))
      \<and> map cd_cookie_name new = map cs_name (consent_data result)"
proof -
  let ?db1 = "db\<lparr>tbl_crawl_results := tbl_crawl_results db @
                      [\<lparr>cr_id = Suc (seq_crawl_results db), cr_domain = domain result,
                        cr_timestamp = now, cr_success = success result,
                        cr_cmp_type = Some (cmp_type result),
                        cr_cookies_collected = cookies_collected result,
                        cr_error_message = error_message result\<rparr>],
                   seq_crawl_results := Suc (seq_crawl_results db)\<rparr>"
  have same: "tbl_consent_data ?db1 = tbl_consent_data db"
    by simp
  have run: "save_crawl_result now result db =
      (Suc (seq_crawl_results db),
       fold (insert_consent (Suc (seq_crawl_results db))) (consent_data result) ?db1)"
    by (simp add: save_crawl_result_def Let_def)
  show ?thesis
    using fold_insert_consent_data [of "Suc (seq_crawl_results db)" "consent_data result" ?db1]
    unfolding run same by simp
qed

section \<open>Persistence of a crawl\<close>

text \<open>
  C1. The claim says that every domain processed gets exactly one \<open>crawl_results\<close> record
  and that every Cookie and ConsentDeclaration row collected during the crawl is
  appended with that record's id. The record and the consent rows are written so
  (\<open>crawl_domains_one_record_each\<close>, \<open>consent_rows_reference_crawl_id\<close>), but no cookie row is
  ever written (\<open>crawl_domains_never_insert_cookies\<close>): \<open>CrawlResult\<close> only carries the number
  of collected cookies and \<open>save_crawl_result\<close> has no insert into \<open>cookies\<close>, although
  \<open>init_database\<close> creates that table with its \<open>crawl_id\<close> foreign key and the Matcher joins
  on it. Evaluated on a crawl of \<open>example.com\<close> that collects one cookie on a fresh store:
  the record says one cookie was collected, the \<open>cookies\<close> table stays empty, and the
  Matcher exports nothing from the store the crawler wrote.
\<close>

theorem collected_cookie_not_persisted:
  "cookies_collected (fst (crawl_domain one_cookie_browser ''example.com'')) = 1
   \<and> map cr_cookies_collected
        (tbl_crawl_results (snd (crawl_domains one_cookie_web fixed_clock [''example.com''] empty_db)))
       = [1]
   \<and> tbl_cookies (snd (crawl_domains one_cookie_web fixed_clock [''example.com''] empty_db)) = []
   \<and> out_cookies (extract_cookies_with_consent
         (snd (crawl_domains one_cookie_web fixed_clock [''example.com''] empty_db)) True now0) = []"
  by code_simp

section \<open>Failed crawls\<close>

lemma crawl_try_raises:
  "raised_in_crawl b = Some e \<Longrightarrow> fst (crawl_try b d) = Inl e"
  by (simp add: raised_in_crawl_def crawl_try_def Let_def split: option.splits)

lemma crawl_try_driver:
  "snd (snd (crawl_try b d)) = (if create_driver_outcome b = None then Driver_open else No_driver)"
  by (simp add: crawl_try_def Let_def split: option.splits)

lemma crawl_try_returns:
  "raised_in_crawl b = None \<Longrightarrow> \<exists>r. fst (crawl_try b d) = Inr r \<and> success r"
  by (simp add: raised_in_crawl_def crawl_try_def Let_def split: option.splits)

text \<open>
  C10, as the specification states it, fails in one point: the error message of a
  failed crawl is \<open>str(e)\<close>, which is empty for an exception with an empty text.
\<close>

theorem failed_crawl_empty_message:
  "raised_in_crawl empty_message_browser = Some (OtherException [])
   \<and> error_message (fst (crawl_domain empty_message_browser ''example.com'')) = Some []"
  by code_simp

text \<open>
  C10, amended. For every domain whose crawl raises a page-load timeout or any other
  exception out of the creation of the driver, the navigation or the readiness wait
  (what the later steps raise is caught where it happens), \<open>crawl_domain\<close> returns a
  \<open>CrawlResult\<close> with \<open>success = False\<close>, \<open>cmp_type = "unknown"\<close>, \<open>cookies_collected = 0\<close>, an empty
  \<open>consent_data\<close> list and an \<open>error_message\<close> that is set: "Page load timeout" for a
  \<open>TimeoutException\<close> and \<open>str(e)\<close> for any other exception, so it is non-empty unless \<open>str(e)\<close>
  is empty. A driver that was created has been quit. The failed result is persisted
  like any other: one \<open>crawl_results\<close> row with these values and no consent row.
\<close>

theorem failed_crawl_result:
  assumes "raised_in_crawl b = Some e"
  shows "success (fst (crawl_domain b d)) = False
         \<and> cmp_type (fst (crawl_domain b d)) = ''unknown''
         \<and> cookies_collected (fst (crawl_domain b d)) = 0
         \<and> consent_data (fst (crawl_domain b d)) = []
         \<and> error_message (fst (crawl_domain b d)) = Some (exception_text e)
         \<and> (exception_text e = []) = (e = OtherException [])
         \<and> snd (crawl_domain b d) = (if create_driver_outcome b = None then Driver_quit else No_driver)
         \<and> tbl_crawl_results (snd (save_crawl_result now (fst (crawl_domain b d)) db))
             = tbl_crawl_results db @
                 [\<lparr>cr_id = Suc (seq_crawl_results db), cr_domain = domain (fst (crawl_domain b d)),
                   cr_timestamp = now, cr_success = False, cr_cmp_type = Some ''unknown'',
                   cr_cookies_collected = 0, cr_error_message = Some (exception_text e)\<rparr>]
         \<and> tbl_consent_data (snd (save_crawl_result now (fst (crawl_domain b d)) db))
             = tbl_consent_data db
         \<and> snd (crawl_domains web clock [d] db)
             = snd (save_crawl_result (clock 1) (fst (crawl_domain (web 1) d)) db)"
proof -
  obtain d' where res: "fst (crawl_domain b d) = failed_result d' (exception_text e)"
    using crawl_try_raises [OF assms, of d]
    by (cases "crawl_try b d"; cases e)
       (auto simp: crawl_domain_def exception_text_def split: prod.splits)
  have drv: "snd (crawl_domain b d) = (if create_driver_outcome b = None then Driver_quit else No_driver)"
    using crawl_try_driver [of b d]
    by (cases "crawl_try b d") (auto simp: crawl_domain_def Let_def split: prod.splits)
  have empty_text: "(exception_text e = []) = (e = OtherException [])"
    by (cases e) (simp_all add: exception_text_def)
  have saved: "tbl_crawl_results (snd (save_crawl_result now (fst (crawl_domain b d)) db))
             = tbl_crawl_results db @
                 [\<lparr>cr_id = Suc (seq_crawl_results db), cr_domain = domain (fst (crawl_domain b d)),
                   cr_timestamp = now, cr_success = False, cr_cmp_type = Some ''unknown'',
                   cr_cookies_collected = 0, cr_error_message = Some (exception_text e)\<rparr>]"
    unfolding save_crawl_result_crawl_results res by (simp add: failed_result_def)
  have nocons: "tbl_consent_data (snd (save_crawl_result now (fst (crawl_domain b d)) db))
             = tbl_consent_data db"
    unfolding res by (simp add: save_crawl_result_def failed_result_def Let_def)
  have loop: "snd (crawl_domains web clock [d] db)
             = snd (save_crawl_result (clock 1) (fst (crawl_domain (web 1) d)) db)"
    by (simp add: crawl_domains_def Let_def)
  show ?thesis
    unfolding saved nocons drv
    using empty_text loop by (simp add: res failed_result_def)
qed

theorem failed_crawl_result_witness:
  "raised_in_crawl timeout_browser = Some TimeoutException
   \<and> success (fst (crawl_domain timeout_browser ''example.com'')) = False
   \<and> cmp_type (fst (crawl_domain timeout_browser ''example.com'')) = ''unknown''
   \<and> cookies_collected (fst (crawl_domain timeout_browser ''example.com'')) = 0
   \<and> consent_data (fst (crawl_domain timeout_browser ''example.com'')) = []
   \<and> error_message (fst (crawl_domain timeout_browser ''example.com'')) = Some ''Page load timeout''
   \<and> snd (crawl_domain timeout_browser ''example.com'') = Driver_quit
   \<and> tbl_consent_data (snd (save_crawl_result (fixed_clock 1)
         (fst (crawl_domain timeout_browser ''example.com'')) empty_db)) = []"
proof -
  have h: "raised_in_crawl timeout_browser = Some TimeoutException"
    by code_simp
  have c: "create_driver_outcome timeout_browser = None"
    by (simp add: timeout_browser_def one_cookie_browser_def)
  have e: "tbl_consent_data empty_db = []"
    by (simp add: empty_db_def)
  show ?thesis
    using failed_crawl_result [OF h, of "''example.com''" "fixed_clock 1" empty_db] h c e
    by (simp add: exception_text_def)
qed

end
